theory Spec2Isabelle
  imports Complex_Main "HOL-Library.Multiset"
begin

section \<open>Python values and the external services\<close>

text \<open>
  A Python value that is either \<open>None\<close> or a \<open>str\<close>: the values of the textual fields of
  a product record of the food database, and the arguments of the translation functions.
  Strings are the UTF-8 bytes of the Python text.
\<close>

type_synonym pystr = "string option"

definition truthy :: "pystr \<Rightarrow> bool" where
  "truthy v = (case v of None \<Rightarrow> False | Some s \<Rightarrow> s \<noteq> [])"

text \<open>
  The translation service (\<open>translator.translate(text, dest=...).text\<close>) is outside the
  repository: it is a parameter, \<open>None\<close> standing for a raised exception (network or service
  failure), \<open>Some t\<close> for the translated text.
\<close>

type_synonym translator = "pystr \<Rightarrow> string option"

datatype notice =
    Info_translated_query pystr
  | Error_translate_en
  | Error_translate_ko
  | Error_retry nat int
  | Error_http
  | Error_unexpected
  | Error_search_failed
  | Error_transport

text \<open>
  The in-memory cache of a function decorated with \<open>@st.cache_data(ttl=...)\<close>, keyed by
  the arguments of the call: the entries that are alive when the function is called (an
  entry is dropped \<open>ttl\<close> seconds after it was stored, so the content of the cache at a
  call is left arbitrary). A call whose arguments have an entry returns the stored value
  and shows again the notices of the call that stored it; the body does not run. Any other
  call runs the body and stores what it returned and showed.
\<close>

type_synonym ('k, 'v) memo = "'k \<rightharpoonup> ('v \<times> notice list)"

section \<open>Query translation: \<open>translate_to_english_cached\<close>\<close>

text \<open>
  The body of \<open>translate_to_english_cached\<close>: the translation, or the input text and an
  error notice when the translator raises. The result is paired with the notices shown.
\<close>

definition translate_to_english_body :: "translator \<Rightarrow> pystr \<Rightarrow> pystr \<times> notice list" where
  "translate_to_english_body tr text =
     (case tr text of
        Some t \<Rightarrow> (Some t, [])
      | None \<Rightarrow> (text, [Error_translate_en]))"

text \<open>The decorated function: the value, the notices, and the cache afterwards.\<close>

definition translate_to_english_cached ::
  "translator \<Rightarrow> pystr \<Rightarrow> (pystr, pystr) memo \<Rightarrow> pystr \<times> notice list \<times> (pystr, pystr) memo" where
  "translate_to_english_cached tr text cache =
     (case cache text of
        Some (v, ns) \<Rightarrow> (v, ns, cache)
      | None \<Rightarrow>
          (case translate_to_english_body tr text of
             (v, ns) \<Rightarrow> (v, ns, cache(text \<mapsto> (v, ns)))))"

section \<open>Food search with retry: \<open>search_food\<close>\<close>

text \<open>
  What one \<open>session_requests.get\<close> with \<open>raise_for_status\<close> and \<open>response.json()\<close> does:
  a transport-level exception (\<open>ChunkedEncodingError\<close>, \<open>ConnectionError\<close>, \<open>Timeout\<close>),
  an \<open>HTTPError\<close>, any other exception (such as a body that is not JSON), or the decoded
  JSON body. For the search endpoint the body is given by its \<open>products\<close> entry: absent
  (\<open>None\<close>) or a list of product records.
\<close>

datatype 'b response =
    Transport_failure
  | HTTP_failure
  | Other_failure
  | Body 'b

datatype py_error = ValueError | AttributeError | KeyError | TypeError | OverflowError





section \<open>Properties of \<open>search_food\<close>\<close>






section \<open>The database\<close>

text \<open>
  The four tables of \<open>meals.db\<close>, each a list of rows in insertion order. The \<open>Float\<close>
  columns of a meal are nullable, so they are \<open>real option\<close> (\<open>None\<close> is SQL NULL). A
  \<open>DateTime\<close> is the record of its fields. Binary floating point is modelled by exact reals.
\<close>

record datetime =
  year :: nat
  month :: nat
  day :: nat
  hour :: nat
  minute :: nat
  second :: nat
  microsecond :: nat

record user =
  user_id :: nat
  username :: string
  password :: string

record meal =
  meal_id :: nat
  meal_user_id :: nat
  meal_name :: string
  calories :: "real option"
  proteins :: "real option"
  carbs :: "real option"
  fats :: "real option"
  meal_date :: datetime

record manual_meal =
  manual_id :: nat
  manual_user_id :: nat
  manual_name :: string
  manual_date :: datetime

record product_translation =
  translation_id :: nat
  barcode :: string
  translated_name :: string

record database =
  users :: "user list"
  meals :: "meal list"
  manual_meals :: "manual_meal list"
  product_translations :: "product_translation list"

definition empty_db :: database where
  "empty_db = \<lparr>users = [], meals = [], manual_meals = [], product_translations = []\<rparr>"

text \<open>
  An \<open>autoincrement\<close> integer primary key on SQLite: one more than the largest id in the
  table, 1 for an empty table.
\<close>

definition next_id :: "nat list \<Rightarrow> nat" where
  "next_id ids = fold max ids 0 + 1"

section \<open>The translation cache: \<open>translate_to_korean_cached\<close>\<close>

text \<open>
  \<open>session.query(ProductTranslation).filter_by(barcode=barcode).first()\<close>: the first row
  of the table with that barcode.
\<close>

definition query_translation :: "database \<Rightarrow> string \<Rightarrow> product_translation option" where
  "query_translation db b = find (\<lambda>row. barcode row = b) (product_translations db)"

text \<open>
  The body of \<open>translate_to_korean_cached\<close>. \<open>tr\<close> is the translation service and
  \<open>commit_ok b\<close> tells whether \<open>session.commit()\<close> of the new row for barcode \<open>b\<close>
  succeeds; reading the table does not fail. The result is the returned value, the
  database afterwards, the notices shown, and the number of calls made to the translation
  service. Any exception inside the \<open>try\<close> shows the error notice and returns \<open>text\<close>; the
  row of a failed commit is discarded with the session.
\<close>

definition translate_to_korean_body ::
  "translator \<Rightarrow> (string \<Rightarrow> bool) \<Rightarrow> pystr \<Rightarrow> pystr \<Rightarrow> database
     \<Rightarrow> pystr \<times> database \<times> notice list \<times> nat" where
  "translate_to_korean_body tr commit_ok text bc db =
     (case (if truthy bc then query_translation db (the bc) else None) of
        Some translation \<Rightarrow> (Some (translated_name translation), db, [], 0)
      | None \<Rightarrow>
          (case tr text of
             None \<Rightarrow> (text, db, [Error_translate_ko], 1)
           | Some translation \<Rightarrow>
               if truthy bc then
                 (if commit_ok (the bc) then
                    (Some translation,
                     db\<lparr>product_translations := product_translations db @
                          [\<lparr>translation_id = next_id (map translation_id (product_translations db)),
                            barcode = the bc, translated_name = translation\<rparr>]\<rparr>,
                     [], 1)
                  else (text, db, [Error_translate_ko], 1))
               else (Some translation, db, [], 1)))"

text \<open>
  The function as every caller reaches it, behind \<open>@st.cache_data(ttl=86400)\<close>: the state
  is the in-memory cache together with the database. The key of a call is made of the
  arguments as they are passed: \<open>arg\<close> is \<open>None\<close> for a call that leaves \<open>barcode\<close> out
  (the body then sees the default \<open>None\<close>) and \<open>Some b\<close> for a call that passes
  \<open>barcode=b\<close>, so that \<open>translate(text)\<close> and \<open>translate(text, barcode=None)\<close> have
  entries of their own. A call answered by the in-memory cache neither reads the table nor
  calls the translation service.
\<close>

type_synonym korean_cache = "(pystr \<times> pystr option, pystr) memo"

definition default_None :: "pystr option \<Rightarrow> pystr" where
  "default_None arg = (case arg of None \<Rightarrow> None | Some v \<Rightarrow> v)"

definition translate_to_korean_cached ::
  "translator \<Rightarrow> (string \<Rightarrow> bool) \<Rightarrow> pystr \<Rightarrow> pystr option \<Rightarrow> korean_cache \<times> database
     \<Rightarrow> pystr \<times> (korean_cache \<times> database) \<times> notice list \<times> nat" where
  "translate_to_korean_cached tr commit_ok text arg st =
     (case fst st (text, arg) of
        Some (v, ns) \<Rightarrow> (v, st, ns, 0)
      | None \<Rightarrow>
          (case translate_to_korean_body tr commit_ok text (default_None arg) (snd st) of
             (v, db', ns, k) \<Rightarrow> (v, ((fst st)((text, arg) \<mapsto> (v, ns)), db'), ns, k)))"

text \<open>
  The rows of the cache table are only ever written by \<open>translate_to_korean_cached\<close>,
  under \<open>if barcode:\<close>, and the column is \<open>unique\<close>: no row has an empty barcode and no two
  rows share one.
\<close>

definition cache_wf :: "database \<Rightarrow> bool" where
  "cache_wf db = (list_all (\<lambda>row. barcode row \<noteq> []) (product_translations db)
                  \<and> distinct (map barcode (product_translations db)))"

section \<open>Properties of the translation functions\<close>

lemma find_append_cases:
  "find P (xs @ ys) = (case find P xs of None \<Rightarrow> find P ys | Some x \<Rightarrow> Some x)"
  by (induction xs) auto

lemma find_distinct_key:
  "distinct (map f xs) \<Longrightarrow> x \<in> set xs \<Longrightarrow> find (\<lambda>y. f y = f x) xs = Some x"
  by (induction xs) (auto simp: image_iff)

lemma query_translation_None:
  "query_translation db b = None \<longleftrightarrow> b \<notin> barcode ` set (product_translations db)"
  by (auto simp: query_translation_def find_None_iff)

lemma cache_wf_empty: "cache_wf empty_db"
  by (simp add: cache_wf_def empty_db_def)

lemma cache_wf_body:
  assumes "cache_wf db"
  shows "cache_wf (fst (snd (translate_to_korean_body tr commit_ok text bc db)))"
  using assms
  by (auto simp: translate_to_korean_body_def cache_wf_def truthy_def query_translation_None
           split: option.splits)

lemma cache_wf_translate:
  assumes "cache_wf (snd st)"
  shows "cache_wf (snd (fst (snd (translate_to_korean_cached tr commit_ok text bc st))))"
proof (cases "fst st (text, bc)")
  case None
  obtain v db' ns k where b:
      "translate_to_korean_body tr commit_ok text (default_None bc) (snd st) = (v, db', ns, k)"
    by (cases "translate_to_korean_body tr commit_ok text (default_None bc) (snd st)") auto
  have "cache_wf db'"
    using cache_wf_body [OF assms, where tr = tr and commit_ok = commit_ok
        and bc = "default_None bc"] b
    by (metis fst_conv snd_conv)
  then show ?thesis by (simp add: translate_to_korean_cached_def None b)
next
  case (Some p)
  then show ?thesis using assms by (cases p) (simp add: translate_to_korean_cached_def default_None_def)
qed

lemma cache_wf_row:
  assumes "cache_wf db" and "row \<in> set (product_translations db)"
  shows "truthy (Some (barcode row))" and "query_translation db (barcode row) = Some row"
  using assms
  by (auto simp: cache_wf_def truthy_def list_all_iff query_translation_def find_distinct_key)

lemma body_hit:
  assumes "truthy (Some b)" and "query_translation db b = Some row"
  shows "translate_to_korean_body tr commit_ok text (Some b) db
           = (Some (translated_name row), db, [], 0)"
  using assms by (simp add: translate_to_korean_body_def)

lemma body_persist:
  assumes "b \<noteq> []" and "b \<notin> barcode ` set (product_translations db)"
      and "tr text = Some t" and "commit_ok b"
  shows "translate_to_korean_body tr commit_ok text (Some b) db
           = (Some t, db\<lparr>product_translations := product_translations db @
                [\<lparr>translation_id = next_id (map translation_id (product_translations db)),
                  barcode = b, translated_name = t\<rparr>]\<rparr>, [], 1)"
  using assms
  by (simp add: translate_to_korean_body_def truthy_def query_translation_None [symmetric])

lemma cached_hit:
  "cache (text, bc) = Some (v, ns)
   \<Longrightarrow> translate_to_korean_cached tr commit_ok text bc (cache, db) = (v, (cache, db), ns, 0)"
  by (simp add: translate_to_korean_cached_def default_None_def)

lemma cached_miss:
  "cache (text, bc) = None
   \<Longrightarrow> translate_to_korean_body tr commit_ok text (default_None bc) db = (v, db', ns, k)
   \<Longrightarrow> translate_to_korean_cached tr commit_ok text bc (cache, db)
         = (v, (cache((text, bc) \<mapsto> (v, ns)), db'), ns, k)"
  by (simp add: translate_to_korean_cached_def default_None_def)

lemma cached_repeat:
  "fst (translate_to_korean_cached tr' commit_ok' text bc
          (fst (snd (translate_to_korean_cached tr commit_ok text bc st))))
     = fst (translate_to_korean_cached tr commit_ok text bc st)
   \<and> snd (snd (snd (translate_to_korean_cached tr' commit_ok' text bc
          (fst (snd (translate_to_korean_cached tr commit_ok text bc st)))))) = 0"
  by (cases st)
     (auto simp: translate_to_korean_cached_def default_None_def split: option.splits prod.splits)

text \<open>
  Claim C4, as the code has it. In a cache table as the application builds it, for every
  barcode \<open>B\<close> of a row of the table, a call \<open>translate(text, B)\<close> that the in-memory
  cache does not answer returns the translated name stored in the row of \<open>B\<close>, calls the
  translation service zero times, shows nothing and leaves the table as it was. A call
  that the in-memory cache answers returns the value stored there for \<open>(text, B)\<close>, also
  without a call to the service and without touching the table. Whatever the state, a
  call repeated with the same arguments while the entry of the first is alive returns the
  same value without a call to the service. And after a call that translated \<open>text\<close> to
  \<open>t\<close> and persisted the row for \<open>B\<close>, a later call for \<open>B\<close> with another text, not
  answered by the in-memory cache, returns \<open>t\<close> without a call to the service.
\<close>

theorem translate_cached_row_is_returned:
  assumes "cache_wf db"
  shows "(\<forall>row \<in> set (product_translations db).
            cache (text, Some (Some (barcode row))) = None \<longrightarrow>
            translate_to_korean_cached tr commit_ok text (Some (Some (barcode row))) (cache, db)
              = (Some (translated_name row),
                 (cache((text, Some (Some (barcode row))) \<mapsto> (Some (translated_name row), [])), db),
                 [], 0))
       \<and> (\<forall>v ns. cache (text, bc) = Some (v, ns) \<longrightarrow>
            translate_to_korean_cached tr commit_ok text bc (cache, db) = (v, (cache, db), ns, 0))
       \<and> fst (translate_to_korean_cached tr' commit_ok' text bc
                 (fst (snd (translate_to_korean_cached tr commit_ok text bc (cache, db)))))
           = fst (translate_to_korean_cached tr commit_ok text bc (cache, db))
       \<and> snd (snd (snd (translate_to_korean_cached tr' commit_ok' text bc
                 (fst (snd (translate_to_korean_cached tr commit_ok text bc (cache, db))))))) = 0
       \<and> (b \<noteq> [] \<and> b \<notin> barcode ` set (product_translations db)
            \<and> cache (text, Some (Some b)) = None \<and> tr text = Some t \<and> commit_ok b
            \<and> text' \<noteq> text \<and> cache (text', Some (Some b)) = None
          \<longrightarrow> fst (translate_to_korean_cached tr commit_ok text (Some (Some b)) (cache, db)) = Some t
            \<and> fst (translate_to_korean_cached tr' commit_ok' text' (Some (Some b))
                 (fst (snd (translate_to_korean_cached tr commit_ok text (Some (Some b)) (cache, db)))))
                = Some t
            \<and> snd (snd (snd (translate_to_korean_cached tr' commit_ok' text' (Some (Some b))
                 (fst (snd (translate_to_korean_cached tr commit_ok text (Some (Some b)) (cache, db)))))))
                = 0)"
proof (intro conjI ballI impI allI)
  fix row
  assume r: "row \<in> set (product_translations db)"
     and m: "cache (text, Some (Some (barcode row))) = None"
  show "translate_to_korean_cached tr commit_ok text (Some (Some (barcode row))) (cache, db)
          = (Some (translated_name row),
             (cache((text, Some (Some (barcode row))) \<mapsto> (Some (translated_name row), [])), db), [], 0)"
    using m body_hit [OF cache_wf_row [OF assms r], where tr = tr and commit_ok = commit_ok]
    by (simp add: translate_to_korean_cached_def default_None_def)
next
  fix v ns
  assume "cache (text, bc) = Some (v, ns)"
  then show "translate_to_korean_cached tr commit_ok text bc (cache, db) = (v, (cache, db), ns, 0)"
    by (rule cached_hit)
next
  show "fst (translate_to_korean_cached tr' commit_ok' text bc
                 (fst (snd (translate_to_korean_cached tr commit_ok text bc (cache, db)))))
           = fst (translate_to_korean_cached tr commit_ok text bc (cache, db))"
    using cached_repeat [of tr' commit_ok' _ bc tr commit_ok "(cache, db)"] by blast
next
  show "snd (snd (snd (translate_to_korean_cached tr' commit_ok' text bc
                 (fst (snd (translate_to_korean_cached tr commit_ok text bc (cache, db))))))) = 0"
    using cached_repeat [of tr' commit_ok' _ bc tr commit_ok "(cache, db)"] by blast
next
  assume h: "b \<noteq> [] \<and> b \<notin> barcode ` set (product_translations db)
            \<and> cache (text, Some (Some b)) = None \<and> tr text = Some t \<and> commit_ok b
            \<and> text' \<noteq> text \<and> cache (text', Some (Some b)) = None"
  let ?row = "\<lparr>translation_id = next_id (map translation_id (product_translations db)),
               barcode = b, translated_name = t\<rparr>"
  let ?db' = "db\<lparr>product_translations := product_translations db @ [?row]\<rparr>"
  let ?cache' = "cache((text, Some (Some b)) \<mapsto> (Some t, []))"
  have p: "translate_to_korean_body tr commit_ok text (Some b) db = (Some t, ?db', [], 1)"
    using h by (intro body_persist) simp_all
  have first: "translate_to_korean_cached tr commit_ok text (Some (Some b)) (cache, db)
                 = (Some t, (?cache', ?db'), [], 1)"
    using h p by (simp add: translate_to_korean_cached_def default_None_def)
  have "find (\<lambda>row. barcode row = b) (product_translations db) = None"
    using h by (auto simp: find_None_iff)
  then have q: "query_translation ?db' b = Some ?row"
    by (simp add: query_translation_def find_append_cases)
  have t: "truthy (Some b)" using h by (simp add: truthy_def)
  have m': "?cache' (text', Some (Some b)) = None" using h by simp
  have second: "translate_to_korean_cached tr' commit_ok' text' (Some (Some b)) (?cache', ?db')
                  = (Some t, (?cache'((text', Some (Some b)) \<mapsto> (Some t, [])), ?db'), [], 0)"
    using m' body_hit [OF t q, where tr = tr' and commit_ok = commit_ok']
    by (simp add: translate_to_korean_cached_def default_None_def)
  show "fst (translate_to_korean_cached tr commit_ok text (Some (Some b)) (cache, db)) = Some t"
    by (simp add: first)
  show "fst (translate_to_korean_cached tr' commit_ok' text' (Some (Some b))
               (fst (snd (translate_to_korean_cached tr commit_ok text (Some (Some b)) (cache, db)))))
          = Some t"
    by (simp add: first second)
  show "snd (snd (snd (translate_to_korean_cached tr' commit_ok' text' (Some (Some b))
               (fst (snd (translate_to_korean_cached tr commit_ok text (Some (Some b)) (cache, db)))))))
          = 0"
    by (simp add: first second)
qed

theorem translate_cached_row_is_returned_witness:
  "cache_wf \<lparr>users = [], meals = [], manual_meals = [], product_translations =
       [\<lparr>translation_id = 1, barcode = ''123'', translated_name = ''dak''\<rparr>]\<rparr>
   \<and> translate_to_korean_cached (\<lambda>x. None) (\<lambda>x. False) (Some ''Chicken'') (Some (Some ''123''))
       (Map.empty,
        \<lparr>users = [], meals = [], manual_meals = [], product_translations =
          [\<lparr>translation_id = 1, barcode = ''123'', translated_name = ''dak''\<rparr>]\<rparr>)
     = (Some ''dak'',
        ([(Some ''Chicken'', Some (Some ''123'')) \<mapsto> (Some ''dak'', [])],
         \<lparr>users = [], meals = [], manual_meals = [], product_translations =
           [\<lparr>translation_id = 1, barcode = ''123'', translated_name = ''dak''\<rparr>]\<rparr>), [], 0)
   \<and> translate_to_korean_cached (\<lambda>x. None) (\<lambda>x. False) (Some ''Chicken'') (Some (Some ''123''))
       ([(Some ''Chicken'', Some (Some ''123'')) \<mapsto> (Some ''tak'', [])],
        \<lparr>users = [], meals = [], manual_meals = [], product_translations =
          [\<lparr>translation_id = 1, barcode = ''123'', translated_name = ''dak''\<rparr>]\<rparr>)
     = (Some ''tak'',
        ([(Some ''Chicken'', Some (Some ''123'')) \<mapsto> (Some ''tak'', [])],
         \<lparr>users = [], meals = [], manual_meals = [], product_translations =
           [\<lparr>translation_id = 1, barcode = ''123'', translated_name = ''dak''\<rparr>]\<rparr>), [], 0)
   \<and> fst (translate_to_korean_cached (\<lambda>x. None) (\<lambda>x. False) (Some ''Chicken Breast'') (Some (Some ''77''))
       (fst (snd (translate_to_korean_cached (\<lambda>x. Some ''gaseumsal'') (\<lambda>x. True)
          (Some ''Breast'') (Some (Some ''77''))
          (Map.empty,
           \<lparr>users = [], meals = [], manual_meals = [], product_translations =
             [\<lparr>translation_id = 1, barcode = ''123'', translated_name = ''dak''\<rparr>]\<rparr>)))))
     = Some ''gaseumsal''"
proof -
  let ?row = "\<lparr>translation_id = 1, barcode = ''123'', translated_name = ''dak''\<rparr>"
  let ?db = "\<lparr>users = [], meals = [], manual_meals = [], product_translations = [?row]\<rparr>"
  let ?hit = "[(Some ''Chicken'', Some (Some ''123'')) \<mapsto> (Some ''tak'', [])]
                :: korean_cache"
  have wf: "cache_wf ?db" by (simp add: cache_wf_def)
  have 1: "translate_to_korean_cached (\<lambda>x. None) (\<lambda>x. False) (Some ''Chicken'') (Some (Some ''123''))
             (Map.empty, ?db)
           = (Some ''dak'', ([(Some ''Chicken'', Some (Some ''123'')) \<mapsto> (Some ''dak'', [])], ?db), [], 0)"
    using translate_cached_row_is_returned [OF wf, where tr = "\<lambda>x. None"
        and commit_ok = "\<lambda>x. False" and cache = Map.empty]
    by simp
  have 2: "translate_to_korean_cached (\<lambda>x. None) (\<lambda>x. False) (Some ''Chicken'') (Some (Some ''123''))
             (?hit, ?db) = (Some ''tak'', (?hit, ?db), [], 0)"
    using translate_cached_row_is_returned [OF wf, where tr = "\<lambda>x. None"
        and commit_ok = "\<lambda>x. False" and cache = ?hit and bc = "Some (Some ''123'')"]
    by simp
  have 3: "fst (translate_to_korean_cached (\<lambda>x. None) (\<lambda>x. False) (Some ''Chicken Breast'')
             (Some (Some ''77''))
             (fst (snd (translate_to_korean_cached (\<lambda>x. Some ''gaseumsal'') (\<lambda>x. True)
                (Some ''Breast'') (Some (Some ''77'')) (Map.empty, ?db))))) = Some ''gaseumsal''"
    using translate_cached_row_is_returned [OF wf, where b = "''77''" and t = "''gaseumsal''"
      and tr = "\<lambda>x. Some ''gaseumsal''" and commit_ok = "\<lambda>x. True"
      and tr' = "\<lambda>x. None" and commit_ok' = "\<lambda>x. False" and cache = Map.empty
      and text' = "Some ''Chicken Breast''"]
    by simp
  show ?thesis by (intro conjI wf 1 2 3)
qed

text \<open>
  The claim as the specification words it, that a row for \<open>B\<close> decides the result whatever
  the text, does not hold of the function behind its in-memory cache. The session below
  starts with an empty in-memory cache and an empty table. The first call, for the text
  \<open>Chicken\<close> and barcode \<open>123\<close>, finds the translation service down and returns the text
  itself, which the in-memory cache keeps. The second call, for \<open>Chicken Breast\<close> and the
  same barcode, translates and persists the row \<open>123 \<mapsto> dak\<close>. The third call repeats the
  first: the row for \<open>123\<close> exists with the name \<open>dak\<close>, and the call returns \<open>Chicken\<close>.
\<close>

definition stale_session :: "korean_cache \<times> database" where
  "stale_session =
     fst (snd (translate_to_korean_cached (\<lambda>x. Some ''dak'') (\<lambda>b. True)
                 (Some ''Chicken Breast'') (Some (Some ''123''))
       (fst (snd (translate_to_korean_cached (\<lambda>x. None) (\<lambda>b. True)
                 (Some ''Chicken'') (Some (Some ''123'')) (Map.empty, empty_db))))))"

theorem translate_cached_stale_counterexample:
  "query_translation (snd stale_session) ''123''
     = Some \<lparr>translation_id = 1, barcode = ''123'', translated_name = ''dak''\<rparr>
   \<and> fst (translate_to_korean_cached (\<lambda>x. Some ''dak'') (\<lambda>b. True)
            (Some ''Chicken'') (Some (Some ''123'')) stale_session) = Some ''Chicken''
   \<and> fst (translate_to_korean_cached (\<lambda>x. Some ''dak'') (\<lambda>b. True)
            (Some ''Chicken'') (Some (Some ''123'')) stale_session) \<noteq> Some ''dak''
   \<and> fst (snd (snd (translate_to_korean_cached (\<lambda>x. Some ''dak'') (\<lambda>b. True)
            (Some ''Chicken'') (Some (Some ''123'')) stale_session))) = [Error_translate_ko]"
  by (simp add: stale_session_def translate_to_korean_cached_def translate_to_korean_body_def
        default_None_def empty_db_def query_translation_def truthy_def next_id_def)

text \<open>
  Claim C5. Whenever the translation fails, that is, the cache does not answer and either
  the translation service raises or the commit of the new cache row raises,
  \<open>translate_to_korean_cached\<close> returns the original text, leaves the database as it was
  and only shows an error notice; and \<open>translate_to_english_cached\<close> returns its input
  text when the translation service raises. This holds of the two function bodies, and of
  the two functions behind their in-memory caches whenever the body runs; the in-memory
  cache then keeps the returned text and the notice.
\<close>

theorem translation_fails_open:
  "((if truthy bc then query_translation db (the bc) else None) = None
      \<and> (tr text = None \<or> (truthy bc \<and> \<not> commit_ok (the bc)))
    \<longrightarrow> translate_to_korean_body tr commit_ok text bc db = (text, db, [Error_translate_ko], 1))
   \<and> (tr_en text = None
    \<longrightarrow> translate_to_english_body tr_en text = (text, [Error_translate_en]))
   \<and> (cache (text, Some bc) = None
      \<and> (if truthy bc then query_translation db (the bc) else None) = None
      \<and> (tr text = None \<or> (truthy bc \<and> \<not> commit_ok (the bc)))
    \<longrightarrow> translate_to_korean_cached tr commit_ok text (Some bc) (cache, db)
          = (text, (cache((text, Some bc) \<mapsto> (text, [Error_translate_ko])), db),
             [Error_translate_ko], 1))
   \<and> (cache (text, None) = None \<and> tr text = None
    \<longrightarrow> translate_to_korean_cached tr commit_ok text None (cache, db)
          = (text, (cache((text, None) \<mapsto> (text, [Error_translate_ko])), db),
             [Error_translate_ko], 1))
   \<and> (ecache text = None \<and> tr_en text = None
    \<longrightarrow> translate_to_english_cached tr_en text ecache
          = (text, [Error_translate_en],
             ecache(text \<mapsto> (text, [Error_translate_en]))))"
  by (auto simp: translate_to_korean_cached_def translate_to_korean_body_def default_None_def
                 translate_to_english_cached_def translate_to_english_body_def truthy_def
           split: option.splits)

theorem translation_fails_open_witness:
  "translate_to_korean_body (\<lambda>x. None) (\<lambda>x. True) (Some ''Chicken'') (Some ''123'')
       \<lparr>users = [], meals = [], manual_meals = [], product_translations = []\<rparr>
     = (Some ''Chicken'', \<lparr>users = [], meals = [], manual_meals = [], product_translations = []\<rparr>,
        [Error_translate_ko], 1)
   \<and> translate_to_korean_body (\<lambda>x. Some ''dak'') (\<lambda>x. False) (Some ''Chicken'') (Some ''123'')
       \<lparr>users = [], meals = [], manual_meals = [], product_translations = []\<rparr>
     = (Some ''Chicken'', \<lparr>users = [], meals = [], manual_meals = [], product_translations = []\<rparr>,
        [Error_translate_ko], 1)
   \<and> translate_to_english_body (\<lambda>x. None) (Some ''dak'') = (Some ''dak'', [Error_translate_en])
   \<and> translate_to_korean_cached (\<lambda>x. Some ''dak'') (\<lambda>x. False) (Some ''Chicken'') (Some (Some ''123''))
       (Map.empty, \<lparr>users = [], meals = [], manual_meals = [], product_translations = []\<rparr>)
     = (Some ''Chicken'',
        ([(Some ''Chicken'', Some (Some ''123'')) \<mapsto> (Some ''Chicken'', [Error_translate_ko])],
         \<lparr>users = [], meals = [], manual_meals = [], product_translations = []\<rparr>),
        [Error_translate_ko], 1)
   \<and> translate_to_english_cached (\<lambda>x. None) (Some ''dak'') Map.empty
     = (Some ''dak'', [Error_translate_en], [Some ''dak'' \<mapsto> (Some ''dak'', [Error_translate_en])])"
proof -
  let ?db = "\<lparr>users = [], meals = [], manual_meals = [], product_translations = []\<rparr>"
  have q: "(if truthy (Some ''123'') then query_translation ?db (the (Some ''123'')) else None) = None"
    by (simp add: query_translation_def)
  have 1: "translate_to_korean_body (\<lambda>x. None) (\<lambda>x. True) (Some ''Chicken'') (Some ''123'') ?db
             = (Some ''Chicken'', ?db, [Error_translate_ko], 1)"
    using translation_fails_open [where tr = "\<lambda>x. None" and bc = "Some ''123''" and db = ?db
        and commit_ok = "\<lambda>x. True"] q
    by simp
  have 2: "translate_to_korean_body (\<lambda>x. Some ''dak'') (\<lambda>x. False) (Some ''Chicken'') (Some ''123'') ?db
             = (Some ''Chicken'', ?db, [Error_translate_ko], 1)"
    using translation_fails_open [where tr = "\<lambda>x. Some ''dak''" and bc = "Some ''123''"
        and db = ?db and commit_ok = "\<lambda>x. False"] q
    by (simp add: truthy_def)
  have 3: "translate_to_english_body (\<lambda>x. None) (Some ''dak'') = (Some ''dak'', [Error_translate_en])"
    using translation_fails_open [where tr_en = "\<lambda>x. None"] by simp
  have 4: "translate_to_korean_cached (\<lambda>x. Some ''dak'') (\<lambda>x. False) (Some ''Chicken'')
             (Some (Some ''123'')) (Map.empty, ?db)
           = (Some ''Chicken'',
              ([(Some ''Chicken'', Some (Some ''123'')) \<mapsto> (Some ''Chicken'', [Error_translate_ko])], ?db),
              [Error_translate_ko], 1)"
    using translation_fails_open [where tr = "\<lambda>x. Some ''dak''" and bc = "Some ''123''"
        and db = ?db and commit_ok = "\<lambda>x. False" and cache = Map.empty] q
    by (simp add: truthy_def)
  have 5: "translate_to_english_cached (\<lambda>x. None) (Some ''dak'') Map.empty
             = (Some ''dak'', [Error_translate_en],
                [Some ''dak'' \<mapsto> (Some ''dak'', [Error_translate_en])])"
    using translation_fails_open [where tr_en = "\<lambda>x. None" and ecache = Map.empty]
    by simp
  show ?thesis by (intro conjI 1 2 3 4 5)
qed

section \<open>The meal store\<close>

text \<open>
  The dictionary handed to \<open>add_diet\<close> and \<open>add_manual_meal\<close>, and an entry of a backup
  file (the only place where the \<open>id\<close> and \<open>date\<close> keys occur). For \<open>name\<close> and \<open>date\<close>,
  \<open>None\<close> is an absent key (\<open>meal['name']\<close> raises \<open>KeyError\<close>) and \<open>Some None\<close> is the
  value \<open>None\<close> (refused by the \<open>nullable=False\<close> column). For a nutrition field, \<open>None\<close> is an absent key (\<open>meal.get(k, 0.0)\<close> gives
  \<open>0.0\<close>), \<open>Some None\<close> is the value \<open>None\<close> and \<open>Some (Some x)\<close> a number.
\<close>

record meal_dict =
  d_id :: "nat option"
  d_name :: "pystr option"
  d_calories :: "real option option"
  d_proteins :: "real option option"
  d_carbs :: "real option option"
  d_fats :: "real option option"
  d_date :: "pystr option"

definition get_default :: "'a option option \<Rightarrow> 'a \<Rightarrow> 'a option" where
  "get_default v dflt = (case v of None \<Rightarrow> Some dflt | Some x \<Rightarrow> x)"

text \<open>
  A nutrition column is declared \<open>Column(Float, default=0.0)\<close>: an attribute of a new row
  that is \<open>None\<close> is left out of the \<open>INSERT\<close>, and the column default fills it in. The
  table can hold a NULL only when the row was written by other means.
\<close>

definition column_default :: "real option \<Rightarrow> real option" where
  "column_default v = (case v of None \<Rightarrow> Some 0 | Some x \<Rightarrow> Some x)"

datatype 'a outcome = Returned 'a | Rerun

datatype store_notice =
    Error_store
  | Error_bad_json
  | Success_reset
  | Success_restore

text \<open>
  \<open>add_diet\<close>: \<open>now\<close> is \<open>datetime.utcnow()\<close> (the column default) and \<open>commit_ok\<close> tells
  whether \<open>session.commit()\<close> succeeds. A missing or \<open>None\<close> name raises inside the \<open>try\<close>:
  the session is rolled back and the result is \<open>False\<close>.
\<close>

definition add_diet :: "datetime \<Rightarrow> bool \<Rightarrow> nat \<Rightarrow> meal_dict \<Rightarrow> database \<Rightarrow> bool \<times> database" where
  "add_diet now commit_ok uid m db =
     (case d_name m of
        Some (Some nm) \<Rightarrow>
          if commit_ok then
            (True, db\<lparr>meals := meals db @
               [\<lparr>meal_id = next_id (map meal_id (meals db)), meal_user_id = uid, meal_name = nm,
                 calories = column_default (get_default (d_calories m) 0),
                 proteins = column_default (get_default (d_proteins m) 0),
                 carbs = column_default (get_default (d_carbs m) 0),
                 fats = column_default (get_default (d_fats m) 0),
                 meal_date = now\<rparr>]\<rparr>)
          else (False, db)
      | _ \<Rightarrow> (False, db))"

definition add_manual_meal :: "datetime \<Rightarrow> bool \<Rightarrow> nat \<Rightarrow> meal_dict \<Rightarrow> database \<Rightarrow> bool \<times> database" where
  "add_manual_meal now commit_ok uid m db =
     (case d_name m of
        Some (Some nm) \<Rightarrow>
          if commit_ok then
            (True, db\<lparr>manual_meals := manual_meals db @
               [\<lparr>manual_id = next_id (map manual_id (manual_meals db)), manual_user_id = uid,
                 manual_name = nm, manual_date = now\<rparr>]\<rparr>)
          else (False, db)
      | _ \<Rightarrow> (False, db))"

definition get_diets :: "database \<Rightarrow> nat \<Rightarrow> meal list" where
  "get_diets db uid = filter (\<lambda>m. meal_user_id m = uid) (meals db)"

definition get_manual_meals :: "database \<Rightarrow> nat \<Rightarrow> manual_meal list" where
  "get_manual_meals db uid = filter (\<lambda>m. manual_user_id m = uid) (manual_meals db)"

text \<open>
  \<open>delete_meal\<close> and \<open>delete_manual_meal\<close>: the first row with that id and that owner is
  deleted; \<open>False\<close> when there is none or when the commit fails.
\<close>

definition delete_meal :: "bool \<Rightarrow> nat \<Rightarrow> nat \<Rightarrow> database \<Rightarrow> bool \<times> database" where
  "delete_meal commit_ok uid mid db =
     (case find (\<lambda>m. meal_id m = mid \<and> meal_user_id m = uid) (meals db) of
        Some m \<Rightarrow> if commit_ok then (True, db\<lparr>meals := remove1 m (meals db)\<rparr>) else (False, db)
      | None \<Rightarrow> (False, db))"

definition delete_manual_meal :: "bool \<Rightarrow> nat \<Rightarrow> nat \<Rightarrow> database \<Rightarrow> bool \<times> database" where
  "delete_manual_meal commit_ok uid mid db =
     (case find (\<lambda>m. manual_id m = mid \<and> manual_user_id m = uid) (manual_meals db) of
        Some m \<Rightarrow>
          if commit_ok then (True, db\<lparr>manual_meals := remove1 m (manual_meals db)\<rparr>)
          else (False, db)
      | None \<Rightarrow> (False, db))"

section \<open>Bulk reset: \<open>reset_database_tables\<close>\<close>

text \<open>
  \<open>uid\<close> is \<open>st.session_state.user_id\<close> (\<open>None\<close> before login; \<open>filter_by(user_id=None)\<close>
  matches no row of a \<open>nullable=False\<close> column). The three bulk deletes are committed
  together; after a commit \<open>st.rerun()\<close> ends the script run (outcome \<open>Rerun\<close>). When the
  commit fails the session is rolled back and the function returns.
\<close>

definition reset_database_tables ::
  "bool \<Rightarrow> nat option \<Rightarrow> database \<Rightarrow> unit outcome \<times> database \<times> store_notice list" where
  "reset_database_tables commit_ok uid db =
     (if commit_ok then
        (Rerun,
         db\<lparr>meals := filter (\<lambda>m. Some (meal_user_id m) \<noteq> uid) (meals db),
            manual_meals := filter (\<lambda>m. Some (manual_user_id m) \<noteq> uid) (manual_meals db),
            product_translations := []\<rparr>,
         [Success_reset])
      else (Returned (), db, [Error_store]))"

section \<open>Daily statistics: \<open>show_statistics_with_chatbot\<close>\<close>

record totals =
  current_carbs :: real
  current_proteins :: real
  current_fats :: real
  current_calories :: real

text \<open>\<open>meal.carbs or 0\<close>: a NULL (or zero) field counts as 0.\<close>

definition or_0 :: "real option \<Rightarrow> real" where
  "or_0 v = (case v of None \<Rightarrow> 0 | Some x \<Rightarrow> if x = 0 then 0 else x)"

text \<open>Python's \<open>sum\<close>: the elements are added from the left, starting from 0.\<close>

definition py_sum :: "real list \<Rightarrow> real" where
  "py_sum xs = foldl (+) 0 xs"

text \<open>
  The totals computed by \<open>show_statistics_with_chatbot\<close>, or \<open>None\<close> when the guard
  \<open>if not st.session_state.get('user_id')\<close> returns early (no user id, or the id 0).
\<close>

definition show_statistics_with_chatbot :: "nat option \<Rightarrow> database \<Rightarrow> totals option" where
  "show_statistics_with_chatbot session_user_id db =
     (case session_user_id of
        None \<Rightarrow> None
      | Some uid \<Rightarrow>
          if uid = 0 then None
          else
            (let ms = get_diets db uid in
             Some \<lparr>current_carbs = py_sum (map (\<lambda>meal. or_0 (carbs meal)) ms),
                   current_proteins = py_sum (map (\<lambda>meal. or_0 (proteins meal)) ms),
                   current_fats = py_sum (map (\<lambda>meal. or_0 (fats meal)) ms),
                   current_calories = py_sum (map (\<lambda>meal. or_0 (calories meal)) ms)\<rparr>))"

section \<open>Properties of the statistics and of the reset\<close>

lemma foldl_add_real: "foldl (+) (a::real) xs = a + sum_list xs"
  by (induction xs arbitrary: a) (auto simp: add.assoc)

lemma py_sum_sum_list: "py_sum xs = sum_list xs"
  by (simp add: py_sum_def foldl_add_real)

lemma or_0_the_default: "or_0 v = (case v of None \<Rightarrow> 0 | Some x \<Rightarrow> x)"
  by (simp add: or_0_def split: option.splits)

text \<open>
  Claim C7. For every user \<open>U\<close> (a logged-in session: a user id other than 0), each total of
  the statistics summary is the sum of that field over the rows that \<open>get_diets\<close> lists for
  \<open>U\<close>, a NULL field counting as 0; and the totals do not depend on the manual-meal table.
\<close>

theorem statistics_sum_of_meals:
  assumes "U \<noteq> 0"
  shows "\<exists>t. show_statistics_with_chatbot (Some U) db = Some t
           \<and> current_calories t = (\<Sum>m \<leftarrow> get_diets db U. case calories m of None \<Rightarrow> 0 | Some x \<Rightarrow> x)
           \<and> current_proteins t = (\<Sum>m \<leftarrow> get_diets db U. case proteins m of None \<Rightarrow> 0 | Some x \<Rightarrow> x)
           \<and> current_carbs t = (\<Sum>m \<leftarrow> get_diets db U. case carbs m of None \<Rightarrow> 0 | Some x \<Rightarrow> x)
           \<and> current_fats t = (\<Sum>m \<leftarrow> get_diets db U. case fats m of None \<Rightarrow> 0 | Some x \<Rightarrow> x)
           \<and> show_statistics_with_chatbot (Some U) (db\<lparr>manual_meals := mms\<rparr>) = Some t"
  using assms
  by (simp add: show_statistics_with_chatbot_def Let_def py_sum_sum_list or_0_the_default
        get_diets_def)

text \<open>
  A small database used to evaluate the functions: two users, three meals (two of user 1,
  one with a NULL field), two manual meals and one cached translation.
\<close>

definition example_date :: datetime where
  "example_date = \<lparr>year = 2024, month = 11, day = 5, hour = 9, minute = 7, second = 3,
                    microsecond = 120034\<rparr>"

definition example_db :: database where
  "example_db =
     \<lparr>users = [\<lparr>user_id = 1, username = ''kim'', password = ''h1''\<rparr>,
               \<lparr>user_id = 2, username = ''lee'', password = ''h2''\<rparr>],
      meals = [\<lparr>meal_id = 1, meal_user_id = 1, meal_name = ''rice'', calories = Some 130,
                 proteins = Some (27 / 10), carbs = Some 28, fats = Some (3 / 10),
                 meal_date = example_date\<rparr>,
               \<lparr>meal_id = 2, meal_user_id = 2, meal_name = ''tofu'', calories = Some 76,
                 proteins = Some 8, carbs = Some 2, fats = Some 5, meal_date = example_date\<rparr>,
               \<lparr>meal_id = 3, meal_user_id = 1, meal_name = ''egg'', calories = Some 155,
                 proteins = Some 13, carbs = None, fats = Some 11, meal_date = example_date\<rparr>],
      manual_meals = [\<lparr>manual_id = 1, manual_user_id = 1, manual_name = ''soup'',
                        manual_date = example_date\<rparr>,
                      \<lparr>manual_id = 2, manual_user_id = 2, manual_name = ''salad'',
                        manual_date = example_date\<rparr>],
      product_translations = [\<lparr>translation_id = 1, barcode = ''123'', translated_name = ''dak''\<rparr>]\<rparr>"

theorem statistics_sum_of_meals_witness:
  "show_statistics_with_chatbot (Some 1) example_db
     = Some \<lparr>current_carbs = 28, current_proteins = 157 / 10, current_fats = 113 / 10,
             current_calories = 285\<rparr>
   \<and> show_statistics_with_chatbot (Some 1) (example_db\<lparr>manual_meals := []\<rparr>)
     = show_statistics_with_chatbot (Some 1) example_db"
proof -
  have n: "(1::nat) \<noteq> 0" by simp
  obtain t where t: "show_statistics_with_chatbot (Some 1) example_db = Some t"
      "current_calories t = (\<Sum>m \<leftarrow> get_diets example_db 1. case calories m of None \<Rightarrow> 0 | Some x \<Rightarrow> x)"
      "current_proteins t = (\<Sum>m \<leftarrow> get_diets example_db 1. case proteins m of None \<Rightarrow> 0 | Some x \<Rightarrow> x)"
      "current_carbs t = (\<Sum>m \<leftarrow> get_diets example_db 1. case carbs m of None \<Rightarrow> 0 | Some x \<Rightarrow> x)"
      "current_fats t = (\<Sum>m \<leftarrow> get_diets example_db 1. case fats m of None \<Rightarrow> 0 | Some x \<Rightarrow> x)"
      "show_statistics_with_chatbot (Some 1) (example_db\<lparr>manual_meals := []\<rparr>) = Some t"
    using statistics_sum_of_meals [OF n, of example_db "[]"] by blast
  have "t = \<lparr>current_carbs = 28, current_proteins = 157 / 10, current_fats = 113 / 10,
             current_calories = 285\<rparr>"
    using t(2-5) by (cases t) (simp add: get_diets_def example_db_def)
  then show ?thesis using t(1) t(6) by simp
qed

text \<open>
  Claim C9. A bulk reset by user \<open>U\<close> whose commit succeeds leaves no Meal row and no
  ManualMeal row of \<open>U\<close>, deletes no row of any other user (the rows that remain are exactly
  the rows of the other users, in their order), empties the translation-cache table
  whatever its rows were, and leaves the users table unchanged.
\<close>

theorem reset_scope:
  "fst (reset_database_tables True (Some U) db) = Rerun
   \<and> meals (fst (snd (reset_database_tables True (Some U) db)))
       = filter (\<lambda>m. meal_user_id m \<noteq> U) (meals db)
   \<and> manual_meals (fst (snd (reset_database_tables True (Some U) db)))
       = filter (\<lambda>m. manual_user_id m \<noteq> U) (manual_meals db)
   \<and> get_diets (fst (snd (reset_database_tables True (Some U) db))) U = []
   \<and> get_manual_meals (fst (snd (reset_database_tables True (Some U) db))) U = []
   \<and> (\<forall>V. V \<noteq> U \<longrightarrow>
         get_diets (fst (snd (reset_database_tables True (Some U) db))) V = get_diets db V
       \<and> get_manual_meals (fst (snd (reset_database_tables True (Some U) db))) V
           = get_manual_meals db V)
   \<and> product_translations (fst (snd (reset_database_tables True (Some U) db))) = []
   \<and> users (fst (snd (reset_database_tables True (Some U) db))) = users db"
proof -
  have m: "filter (\<lambda>m. meal_user_id m = V) (filter (\<lambda>m. meal_user_id m \<noteq> U) xs)
             = (if V = U then [] else filter (\<lambda>m. meal_user_id m = V) xs)" for V xs
    by (induction xs) auto
  have mm: "filter (\<lambda>m. manual_user_id m = V) (filter (\<lambda>m. manual_user_id m \<noteq> U) xs)
             = (if V = U then [] else filter (\<lambda>m. manual_user_id m = V) xs)" for V xs
    by (induction xs) auto
  show ?thesis
    by (simp add: reset_database_tables_def get_diets_def get_manual_meals_def m mm
          del: filter_filter)
qed

theorem reset_scope_witness:
  "meals (fst (snd (reset_database_tables True (Some 1) example_db)))
     = [\<lparr>meal_id = 2, meal_user_id = 2, meal_name = ''tofu'', calories = Some 76,
         proteins = Some 8, carbs = Some 2, fats = Some 5, meal_date = example_date\<rparr>]
   \<and> get_manual_meals (fst (snd (reset_database_tables True (Some 1) example_db))) 2
     = [\<lparr>manual_id = 2, manual_user_id = 2, manual_name = ''salad'', manual_date = example_date\<rparr>]
   \<and> get_diets (fst (snd (reset_database_tables True (Some 1) example_db))) 1 = []
   \<and> product_translations (fst (snd (reset_database_tables True (Some 1) example_db))) = []
   \<and> users (fst (snd (reset_database_tables True (Some 1) example_db))) = users example_db"
proof -
  note T = reset_scope [of 1 example_db]
  have d: "(2::nat) \<noteq> 1" by simp
  have 1: "meals (fst (snd (reset_database_tables True (Some 1) example_db)))
     = [\<lparr>meal_id = 2, meal_user_id = 2, meal_name = ''tofu'', calories = Some 76,
         proteins = Some 8, carbs = Some 2, fats = Some 5, meal_date = example_date\<rparr>]"
    using T by (simp add: example_db_def)
  have 2: "get_manual_meals (fst (snd (reset_database_tables True (Some 1) example_db))) 2
     = [\<lparr>manual_id = 2, manual_user_id = 2, manual_name = ''salad'', manual_date = example_date\<rparr>]"
    using T d by (simp add: example_db_def get_manual_meals_def)
  show ?thesis using 1 2 T by blast
qed


section \<open>Nutrition lookup: \<open>get_nutrition_info\<close>\<close>

text \<open>
  A Python \<open>float\<close>: a finite number (modelled by an exact real), an infinity or a NaN.
  The JSON decoder produces the last three from \<open>Infinity\<close>, \<open>-Infinity\<close>, \<open>NaN\<close> and from
  a literal beyond the double range.
\<close>

datatype pyfloat = Finite real | PosInf | NegInf | NaN

text \<open>
  A value decoded from JSON, as far as the lookup tells values apart: \<open>None\<close>, a boolean,
  an \<open>int\<close> (unbounded), a \<open>float\<close>, a string, or anything else (an array or an object).
\<close>

datatype pyval = PNone | PBool bool | PInt int | PFloat pyfloat | PStr string | POther

text \<open>
  A place of the response where the code calls \<open>.get\<close>: the value there is an object with
  the entries the code reads, or it is not an object, and then \<open>.get\<close> raises.
\<close>

datatype 'a json_object = Not_object | Object 'a

text \<open>In each record below a field is \<open>None\<close> when the key is absent from the object.\<close>

record nutriments =
  energy_kcal_100g :: "pyval option"
  proteins_100g :: "pyval option"
  carbohydrates_100g :: "pyval option"
  fat_100g :: "pyval option"

record product_info =
  info_product_name :: "pyval option"
  info_nutriments :: "nutriments json_object option"

record product_response =
  status :: "pyval option"
  product :: "product_info json_object option"

record nutrition_info =
  name :: pyval
  n_calories :: pyfloat
  n_proteins :: pyfloat
  n_carbs :: pyfloat
  n_fats :: pyfloat

definition no_name :: string where
  "no_name = [CHR 0xEC, CHR 0x9D, CHR 0xB4, CHR 0xEB, CHR 0xA6, CHR 0x84, CHR 0x20,
              CHR 0xEC, CHR 0x97, CHR 0x86, CHR 0xEC, CHR 0x9D, CHR 0x8C]"

text \<open>
  Python's \<open>float(x)\<close>, \<open>None\<close> standing for a raised \<open>TypeError\<close>, \<open>ValueError\<close> or
  \<open>OverflowError\<close>. An \<open>int\<close> is rounded to the nearest double, and is refused with
  \<open>OverflowError\<close> when it rounds beyond the largest one, that is from
  \<open>2 ^ 1024 - 2 ^ 970\<close> on in absolute value. What \<open>float\<close> makes of a string is the
  parameter \<open>str_float\<close> (the parser of the language, not of this repository).
\<close>

definition py_float :: "(string \<Rightarrow> pyfloat option) \<Rightarrow> pyval \<Rightarrow> pyfloat option" where
  "py_float str_float v =
     (case v of
        PNone \<Rightarrow> None
      | PBool b \<Rightarrow> Some (Finite (if b then 1 else 0))
      | PInt n \<Rightarrow> if \<bar>n\<bar> < 2 ^ 1024 - 2 ^ 970 then Some (Finite (of_int n)) else None
      | PFloat x \<Rightarrow> Some x
      | PStr s \<Rightarrow> str_float s
      | POther \<Rightarrow> None)"

text \<open>\<open>data.get('status') == 1\<close>: true of the integer 1, of the float 1.0 and of \<open>True\<close>.\<close>

definition status_is_1 :: "pyval option \<Rightarrow> bool" where
  "status_is_1 v = (v = Some (PInt 1) \<or> v = Some (PFloat (Finite 1)) \<or> v = Some (PBool True))"

text \<open>\<open>d.get(key, default)\<close> on an entry that may be absent.\<close>

definition dict_get :: "'a option \<Rightarrow> 'a \<Rightarrow> 'a" where
  "dict_get entry dflt = (case entry of None \<Rightarrow> dflt | Some v \<Rightarrow> v)"

text \<open>
  \<open>get_nutrition_info\<close>, given what the request for the barcode produced. The result
  \<open>None\<close> is the empty dictionary \<open>{}\<close>. Every exception is caught, shown as a notice, and
  followed by \<open>return {}\<close>; a response whose status is not 1 falls through to the same
  \<open>return {}\<close> without a notice.
\<close>

definition get_nutrition_info ::
  "(string \<Rightarrow> pyfloat option) \<Rightarrow> product_response json_object response
     \<Rightarrow> nutrition_info option \<times> notice list" where
  "get_nutrition_info str_float resp =
     (case resp of
        Transport_failure \<Rightarrow> (None, [Error_transport])
      | HTTP_failure \<Rightarrow> (None, [Error_http])
      | Other_failure \<Rightarrow> (None, [Error_unexpected])
      | Body Not_object \<Rightarrow> (None, [Error_unexpected])
      | Body (Object data) \<Rightarrow>
          if status_is_1 (status data) then
            (case dict_get (product data)
                    (Object \<lparr>info_product_name = None, info_nutriments = None\<rparr>) of
               Not_object \<Rightarrow> (None, [Error_unexpected])
             | Object prd \<Rightarrow>
                 (case dict_get (info_nutriments prd)
                         (Object \<lparr>energy_kcal_100g = None, proteins_100g = None,
                                  carbohydrates_100g = None, fat_100g = None\<rparr>) of
                    Not_object \<Rightarrow> (None, [Error_unexpected])
                  | Object nutr \<Rightarrow>
                      (case (py_float str_float (dict_get (energy_kcal_100g nutr) (PInt 0)),
                             py_float str_float (dict_get (proteins_100g nutr) (PInt 0)),
                             py_float str_float (dict_get (carbohydrates_100g nutr) (PInt 0)),
                             py_float str_float (dict_get (fat_100g nutr) (PInt 0))) of
                         (Some c, Some p, Some cb, Some f) \<Rightarrow>
                           (Some \<lparr>name = dict_get (info_product_name prd) (PStr no_name),
                                  n_calories = c, n_proteins = p, n_carbs = cb, n_fats = f\<rparr>, [])
                       | _ \<Rightarrow> (None, [Error_unexpected]))))
          else (None, []))"

text \<open>A field of the nutriments that is absent, or whose value \<open>float\<close> converts.\<close>

definition float_accepts :: "(string \<Rightarrow> pyfloat option) \<Rightarrow> pyval option \<Rightarrow> bool" where
  "float_accepts str_float field =
     (case field of None \<Rightarrow> True | Some v \<Rightarrow> py_float str_float v \<noteq> None)"

text \<open>
  The \<open>product\<close> and \<open>nutriments\<close> entries of the response are objects or absent, and
  \<open>float\<close> accepts each of the four fields that is present.
\<close>

definition nutrition_parses :: "(string \<Rightarrow> pyfloat option) \<Rightarrow> product_response \<Rightarrow> bool" where
  "nutrition_parses str_float data =
     (case dict_get (product data) (Object \<lparr>info_product_name = None, info_nutriments = None\<rparr>) of
        Not_object \<Rightarrow> False
      | Object prd \<Rightarrow>
          (case dict_get (info_nutriments prd)
                  (Object \<lparr>energy_kcal_100g = None, proteins_100g = None,
                           carbohydrates_100g = None, fat_100g = None\<rparr>) of
             Not_object \<Rightarrow> False
           | Object nutr \<Rightarrow>
               float_accepts str_float (energy_kcal_100g nutr)
               \<and> float_accepts str_float (proteins_100g nutr)
               \<and> float_accepts str_float (carbohydrates_100g nutr)
               \<and> float_accepts str_float (fat_100g nutr)))"

section \<open>Properties of the nutrition lookup\<close>

text \<open>
  Claim C6. Unless the response is an object with status 1 whose entries parse (so for
  every status other than 1, every missing status, every transport or HTTP failure and
  every failure to decode or to parse), \<open>get_nutrition_info\<close> returns the empty result,
  never a record.
\<close>

theorem nutrition_empty_unless_found:
  assumes "\<forall>data. resp = Body (Object data)
             \<longrightarrow> \<not> status_is_1 (status data) \<or> \<not> nutrition_parses str_float data"
  shows "fst (get_nutrition_info str_float resp) = None"
proof (cases resp)
  case (Body b)
  show ?thesis
  proof (cases b)
    case Not_object
    then show ?thesis using Body by (simp add: get_nutrition_info_def)
  next
    case (Object data)
    then have "\<not> status_is_1 (status data) \<or> \<not> nutrition_parses str_float data"
      using assms Body by simp
    then show ?thesis
      using Body Object
      by (auto simp: get_nutrition_info_def nutrition_parses_def float_accepts_def dict_get_def
               split: json_object.splits option.splits)
  qed
qed (simp_all add: get_nutrition_info_def)

definition example_nutriments :: nutriments where
  "example_nutriments =
     \<lparr>energy_kcal_100g = Some (PInt 165), proteins_100g = Some (PStr ''31.0''),
      carbohydrates_100g = None, fat_100g = Some (PFloat (Finite (36 / 10)))\<rparr>"

text \<open>Python's \<open>float\<close> on the strings of the examples: it raises on all but \<open>'31.0'\<close>.\<close>

definition example_str_float :: "string \<Rightarrow> pyfloat option" where
  "example_str_float s = (if s = ''31.0'' then Some (Finite 31) else None)"

theorem nutrition_empty_unless_found_witness:
  "fst (get_nutrition_info example_str_float
          (Body (Object \<lparr>status = Some (PInt 0),
                         product = Some (Object \<lparr>info_product_name = Some (PStr ''Chicken''),
                           info_nutriments = Some (Object example_nutriments)\<rparr>)\<rparr>))) = None
   \<and> fst (get_nutrition_info example_str_float Transport_failure) = None
   \<and> fst (get_nutrition_info example_str_float
          (Body (Object \<lparr>status = Some (PInt 1), product = Some Not_object\<rparr>))) = None"
proof -
  have 1: "\<forall>data. Body (Object \<lparr>status = Some (PInt 0),
                         product = Some (Object \<lparr>info_product_name = Some (PStr ''Chicken''),
                           info_nutriments = Some (Object example_nutriments)\<rparr>)\<rparr>)
                   = Body (Object data)
             \<longrightarrow> \<not> status_is_1 (status data) \<or> \<not> nutrition_parses example_str_float data"
    by (auto simp: status_is_1_def)
  have 2: "\<forall>data. (Transport_failure :: product_response json_object response)
                   = Body (Object data)
             \<longrightarrow> \<not> status_is_1 (status data) \<or> \<not> nutrition_parses example_str_float data"
    by simp
  have 3: "\<forall>data. Body (Object \<lparr>status = Some (PInt 1), product = Some Not_object\<rparr>)
                   = Body (Object data)
             \<longrightarrow> \<not> status_is_1 (status data) \<or> \<not> nutrition_parses example_str_float data"
    by (auto simp: nutrition_parses_def dict_get_def)
  show ?thesis
    by (intro conjI nutrition_empty_unless_found [OF 1] nutrition_empty_unless_found [OF 2]
          nutrition_empty_unless_found [OF 3])
qed

text \<open>
  Claim C3, as the code has it. For a response with status 1 whose \<open>product\<close> and
  \<open>nutriments\<close> entries are objects or absent: when each of the four per-100g fields is
  absent or a value that \<open>float\<close> accepts, the lookup returns the record of their float
  values, with 0.0 for an absent field; and when some field is present with a value that
  \<open>float\<close> rejects (\<open>None\<close>, an array or object, a string that is not a number, an integer
  beyond the double range), the lookup returns the empty result with an error notice.
\<close>

theorem nutrition_found_fields:
  assumes "status_is_1 (status data)"
      and "dict_get (product data) (Object \<lparr>info_product_name = None, info_nutriments = None\<rparr>)
             = Object prd"
      and "dict_get (info_nutriments prd)
             (Object \<lparr>energy_kcal_100g = None, proteins_100g = None,
                      carbohydrates_100g = None, fat_100g = None\<rparr>) = Object nutr"
  shows "(float_accepts str_float (energy_kcal_100g nutr)
          \<and> float_accepts str_float (proteins_100g nutr)
          \<and> float_accepts str_float (carbohydrates_100g nutr)
          \<and> float_accepts str_float (fat_100g nutr)
         \<longrightarrow> get_nutrition_info str_float (Body (Object data))
             = (Some \<lparr>name = dict_get (info_product_name prd) (PStr no_name),
                      n_calories = (case energy_kcal_100g nutr of None \<Rightarrow> Finite 0
                                    | Some v \<Rightarrow> the (py_float str_float v)),
                      n_proteins = (case proteins_100g nutr of None \<Rightarrow> Finite 0
                                    | Some v \<Rightarrow> the (py_float str_float v)),
                      n_carbs = (case carbohydrates_100g nutr of None \<Rightarrow> Finite 0
                                 | Some v \<Rightarrow> the (py_float str_float v)),
                      n_fats = (case fat_100g nutr of None \<Rightarrow> Finite 0
                                | Some v \<Rightarrow> the (py_float str_float v))\<rparr>, []))
       \<and> (\<not> (float_accepts str_float (energy_kcal_100g nutr)
             \<and> float_accepts str_float (proteins_100g nutr)
             \<and> float_accepts str_float (carbohydrates_100g nutr)
             \<and> float_accepts str_float (fat_100g nutr))
         \<longrightarrow> get_nutrition_info str_float (Body (Object data)) = (None, [Error_unexpected]))"
  using assms
  by (auto simp: get_nutrition_info_def dict_get_def py_float_def float_accepts_def
           split: option.splits)

theorem nutrition_found_fields_witness:
  "get_nutrition_info example_str_float
     (Body (Object \<lparr>status = Some (PInt 1),
                    product = Some (Object \<lparr>info_product_name = Some (PStr ''Chicken''),
                      info_nutriments = Some (Object example_nutriments)\<rparr>)\<rparr>))
     = (Some \<lparr>name = PStr ''Chicken'', n_calories = Finite 165, n_proteins = Finite 31,
              n_carbs = Finite 0, n_fats = Finite (36 / 10)\<rparr>, [])
   \<and> get_nutrition_info example_str_float
     (Body (Object \<lparr>status = Some (PInt 1),
                    product = Some (Object \<lparr>info_product_name = Some (PStr ''Chicken''),
                      info_nutriments = Some (Object (example_nutriments
                        \<lparr>fat_100g := Some PNone\<rparr>))\<rparr>)\<rparr>))
     = (None, [Error_unexpected])"
proof -
  let ?prd = "\<lambda>n. \<lparr>info_product_name = Some (PStr ''Chicken''), info_nutriments = Some (Object n)\<rparr>"
  let ?data = "\<lambda>n. \<lparr>status = Some (PInt 1), product = Some (Object (?prd n))\<rparr>"
  have s: "status_is_1 (status (?data n))" for n
    by (simp add: status_is_1_def)
  have p: "dict_get (product (?data n)) (Object \<lparr>info_product_name = None, info_nutriments = None\<rparr>)
             = Object (?prd n)" for n
    by (simp add: dict_get_def)
  have n: "dict_get (info_nutriments (?prd n))
             (Object \<lparr>energy_kcal_100g = None, proteins_100g = None,
                      carbohydrates_100g = None, fat_100g = None\<rparr>) = Object n" for n
    by (simp add: dict_get_def)
  have ok: "float_accepts example_str_float (energy_kcal_100g example_nutriments)
          \<and> float_accepts example_str_float (proteins_100g example_nutriments)
          \<and> float_accepts example_str_float (carbohydrates_100g example_nutriments)
          \<and> float_accepts example_str_float (fat_100g example_nutriments)"
    by (simp add: float_accepts_def example_nutriments_def example_str_float_def py_float_def)
  have bad: "\<not> float_accepts example_str_float (fat_100g (example_nutriments\<lparr>fat_100g := Some PNone\<rparr>))"
    by (simp add: float_accepts_def py_float_def)
  have 1: "get_nutrition_info example_str_float (Body (Object (?data example_nutriments)))
     = (Some \<lparr>name = PStr ''Chicken'', n_calories = Finite 165, n_proteins = Finite 31,
              n_carbs = Finite 0, n_fats = Finite (36 / 10)\<rparr>, [])"
    using nutrition_found_fields [OF s [of example_nutriments] p [of example_nutriments]
        n [of example_nutriments], where str_float = example_str_float] ok
    by (simp add: example_nutriments_def example_str_float_def py_float_def dict_get_def)
  have 2: "get_nutrition_info example_str_float
             (Body (Object (?data (example_nutriments\<lparr>fat_100g := Some PNone\<rparr>))))
     = (None, [Error_unexpected])"
    using nutrition_found_fields [OF s [of "example_nutriments\<lparr>fat_100g := Some PNone\<rparr>"]
        p [of "example_nutriments\<lparr>fat_100g := Some PNone\<rparr>"]
        n [of "example_nutriments\<lparr>fat_100g := Some PNone\<rparr>"],
        where str_float = example_str_float] bad
    by blast
  show ?thesis using 1 2 by blast
qed

theorem nutrition_non_numeric_counterexample:
  "get_nutrition_info example_str_float
     (Body (Object \<lparr>status = Some (PInt 1),
                    product = Some (Object \<lparr>info_product_name = Some (PStr ''Chicken''),
                      info_nutriments = Some (Object
                        \<lparr>energy_kcal_100g = Some (PInt 165), proteins_100g = Some (PStr ''abc''),
                         carbohydrates_100g = Some (PInt 0), fat_100g = Some (PFloat (Finite (36 / 10)))\<rparr>)\<rparr>)\<rparr>))
     = (None, [Error_unexpected])
   \<and> get_nutrition_info example_str_float
     (Body (Object \<lparr>status = Some (PInt 1),
                    product = Some (Object \<lparr>info_product_name = Some (PStr ''Chicken''),
                      info_nutriments = Some (Object
                        \<lparr>energy_kcal_100g = Some (PInt (10 ^ 309)), proteins_100g = None,
                         carbohydrates_100g = None, fat_100g = None\<rparr>)\<rparr>)\<rparr>))
     = (None, [Error_unexpected])"
  by (simp add: get_nutrition_info_def status_is_1_def dict_get_def py_float_def
        example_str_float_def)

section \<open>Timestamps as text: \<open>strftime\<close> and \<open>strptime\<close>\<close>

definition digit :: "nat \<Rightarrow> char" where
  "digit d = char_of (48 + d)"

definition digit_val :: "char \<Rightarrow> nat option" where
  "digit_val c = (let n = (of_char c :: nat) in if 48 \<le> n \<and> n \<le> 57 then Some (n - 48) else None)"

definition pad2 :: "nat \<Rightarrow> string" where
  "pad2 n = [digit (n div 10 mod 10), digit (n mod 10)]"

definition pad4 :: "nat \<Rightarrow> string" where
  "pad4 n = [digit (n div 1000 mod 10), digit (n div 100 mod 10), digit (n div 10 mod 10),
             digit (n mod 10)]"

text \<open>A number in decimal, without padding.\<close>

fun decimal :: "nat \<Rightarrow> string" where
  "decimal n = (if n < 10 then [digit n] else decimal (n div 10) @ [digit (n mod 10)])"

text \<open>
  \<open>date.strftime('%Y-%m-%d %H:%M:%S')\<close>. The microseconds are not printed. A year from
  1000 on is printed with its four digits; below 1000 the output of \<open>%Y\<close> depends on the
  platform, which either pads the year with zeros to four digits (\<open>pad_year\<close>) or prints it
  without padding.
\<close>

definition strftime :: "bool \<Rightarrow> datetime \<Rightarrow> string" where
  "strftime pad_year d =
     (if pad_year \<or> 1000 \<le> year d then pad4 (year d) else decimal (year d))
     @ ''-'' @ pad2 (month d) @ ''-'' @ pad2 (day d) @ '' '' @
     pad2 (hour d) @ '':'' @ pad2 (minute d) @ '':'' @ pad2 (second d)"

definition parse2 :: "char \<Rightarrow> char \<Rightarrow> nat option" where
  "parse2 a b = (case (digit_val a, digit_val b) of
                   (Some x, Some y) \<Rightarrow> Some (10 * x + y) | _ \<Rightarrow> None)"

definition parse4 :: "char \<Rightarrow> char \<Rightarrow> char \<Rightarrow> char \<Rightarrow> nat option" where
  "parse4 a b c d = (case (parse2 a b, parse2 c d) of
                       (Some x, Some y) \<Rightarrow> Some (100 * x + y) | _ \<Rightarrow> None)"

definition days_in_month :: "nat \<Rightarrow> nat \<Rightarrow> nat" where
  "days_in_month y m =
     (if m = 2 then (if y mod 4 = 0 \<and> (y mod 100 \<noteq> 0 \<or> y mod 400 = 0) then 29 else 28)
      else if m \<in> {4, 6, 9, 11} then 30 else 31)"

text \<open>
  \<open>datetime.strptime(s, '%Y-%m-%d %H:%M:%S')\<close>, \<open>None\<close> standing for a raised
  \<open>ValueError\<close>. The directive \<open>%Y\<close> takes exactly four digits, so a string with a \<open>-\<close>
  among its first four characters is refused. On a string in the zero-padded 19-character
  layout that \<open>strftime\<close> writes for a four-digit year, the fields are read and the ranges
  checked (the month, the day of the month, the hour, minute and second, and the year 0,
  which \<open>datetime\<close> refuses). What the library makes of a string in any other layout (it
  accepts unpadded fields after the year and other white space) is the parameter \<open>lenient\<close>.
\<close>

definition strptime :: "(string \<Rightarrow> datetime option) \<Rightarrow> string \<Rightarrow> datetime option" where
  "strptime lenient s =
     (if CHR ''-'' \<in> set (take 4 s) then None
      else
        (case s of
           [y1, y2, y3, y4, c1, m1, m2, c2, d1, d2, c3, h1, h2, c4, n1, n2, c5, s1, s2] \<Rightarrow>
             (case (parse4 y1 y2 y3 y4, parse2 m1 m2, parse2 d1 d2,
                    parse2 h1 h2, parse2 n1 n2, parse2 s1 s2) of
                (Some y, Some m, Some d, Some h, Some n, Some sec) \<Rightarrow>
                  if c1 = CHR ''-'' \<and> c2 = CHR ''-'' \<and> c3 = CHR '' '' \<and> c4 = CHR '':''
                     \<and> c5 = CHR '':'' then
                    (if 1 \<le> y \<and> 1 \<le> m \<and> m \<le> 12 \<and> 1 \<le> d \<and> d \<le> days_in_month y m
                        \<and> h \<le> 23 \<and> n \<le> 59 \<and> sec \<le> 59
                     then Some \<lparr>year = y, month = m, day = d, hour = h, minute = n, second = sec,
                                microsecond = 0\<rparr>
                     else None)
                  else lenient s
              | _ \<Rightarrow> lenient s)
         | _ \<Rightarrow> lenient s))"

text \<open>A timestamp that \<open>datetime\<close> can hold: the years 1 to 9999.\<close>

definition valid_datetime :: "datetime \<Rightarrow> bool" where
  "valid_datetime d =
     (1 \<le> year d \<and> year d \<le> 9999 \<and> 1 \<le> month d \<and> month d \<le> 12
      \<and> 1 \<le> day d \<and> day d \<le> days_in_month (year d) (month d)
      \<and> hour d \<le> 23 \<and> minute d \<le> 59 \<and> second d \<le> 59 \<and> microsecond d < 1000000)"

lemma digit_val_digit: "d < 10 \<Longrightarrow> digit_val (digit d) = Some d"
  by (simp add: digit_val_def digit_def Let_def)

lemma digit_not_dash: "d < 10 \<Longrightarrow> digit d \<noteq> CHR ''-''"
proof
  assume "d < 10" and "digit d = CHR ''-''"
  then have "digit_val (CHR ''-'') = Some d" using digit_val_digit [of d] by simp
  then show False by (simp add: digit_val_def)
qed

lemma parse2_pad: "parse2 (digit (n div 10 mod 10)) (digit (n mod 10)) = Some (n mod 100)"
proof -
  have "10 * (n div 10 mod 10) + n mod 10 = n mod 100"
    using mod_mult2_eq [of n 10 10] by simp
  then show ?thesis by (simp add: parse2_def digit_val_digit)
qed

lemma parse4_pad:
  "parse4 (digit (n div 1000 mod 10)) (digit (n div 100 mod 10)) (digit (n div 10 mod 10))
     (digit (n mod 10)) = Some (n mod 10000)"
proof -
  have a: "parse2 (digit (n div 1000 mod 10)) (digit (n div 100 mod 10)) = Some (n div 100 mod 100)"
  proof -
    have "n div 100 div 10 = n div 1000" by (simp add: div_mult2_eq)
    then show ?thesis using parse2_pad [of "n div 100"] by simp
  qed
  have "100 * (n div 100 mod 100) + n mod 100 = n mod 10000"
    using mod_mult2_eq [of n 100 100] by simp
  then show ?thesis by (simp add: parse4_def a parse2_pad)
qed

lemma days_in_month_le: "days_in_month y m \<le> 31"
  by (simp add: days_in_month_def)

lemma strptime_strftime:
  assumes "valid_datetime d" and "pad_year \<or> 1000 \<le> year d"
  shows "strptime lenient (strftime pad_year d) = Some (d\<lparr>microsecond := 0\<rparr>)"
proof -
  have "day d \<le> 31"
    using assms days_in_month_le [of "year d" "month d"] by (simp add: valid_datetime_def)
  then have m: "year d mod 10000 = year d" "month d mod 100 = month d" "day d mod 100 = day d"
      "hour d mod 100 = hour d" "minute d mod 100 = minute d" "second d mod 100 = second d"
    using assms by (simp_all add: valid_datetime_def)
  have s: "strftime pad_year d
             = pad4 (year d) @ ''-'' @ pad2 (month d) @ ''-'' @ pad2 (day d) @ '' '' @
               pad2 (hour d) @ '':'' @ pad2 (minute d) @ '':'' @ pad2 (second d)"
    using assms(2) by (auto simp: strftime_def)
  have n: "CHR ''-'' \<notin> set (take 4 (strftime pad_year d))"
    using digit_not_dash [of "year d div 1000 mod 10"] digit_not_dash [of "year d div 100 mod 10"]
      digit_not_dash [of "year d div 10 mod 10"] digit_not_dash [of "year d mod 10"]
    by (auto simp: s pad4_def)
  have "strptime lenient (strftime pad_year d)
        = Some \<lparr>year = year d, month = month d, day = day d, hour = hour d, minute = minute d,
                second = second d, microsecond = 0\<rparr>"
    using assms(1) n unfolding s
    by (simp add: strptime_def pad2_def pad4_def parse2_pad parse4_pad m valid_datetime_def)
  then show ?thesis by simp
qed

lemma strftime_microsecond: "strftime pad_year (d\<lparr>microsecond := u\<rparr>) = strftime pad_year d"
  by (simp add: strftime_def)

section \<open>Backup and restore: \<open>backup_data\<close> and \<open>restore_data\<close>\<close>

text \<open>
  The content of a backup file, as the JSON value that \<open>json.dumps\<close> writes and \<open>json.load\<close>
  reads back (the JSON text in between belongs to the library and is not modelled). Each of
  the two keys may be absent from an uploaded file.
\<close>

record backup_file =
  f_meals :: "meal_dict list option"
  f_manual_meals :: "meal_dict list option"

definition backup_meal :: "bool \<Rightarrow> meal \<Rightarrow> meal_dict" where
  "backup_meal pad_year m =
     \<lparr>d_id = Some (meal_id m), d_name = Some (Some (meal_name m)),
      d_calories = Some (calories m), d_proteins = Some (proteins m),
      d_carbs = Some (carbs m), d_fats = Some (fats m),
      d_date = Some (Some (strftime pad_year (meal_date m)))\<rparr>"

definition backup_manual_meal :: "bool \<Rightarrow> manual_meal \<Rightarrow> meal_dict" where
  "backup_manual_meal pad_year m =
     \<lparr>d_id = Some (manual_id m), d_name = Some (Some (manual_name m)),
      d_calories = None, d_proteins = None, d_carbs = None, d_fats = None,
      d_date = Some (Some (strftime pad_year (manual_date m)))\<rparr>"

definition backup_data :: "bool \<Rightarrow> database \<Rightarrow> nat \<Rightarrow> backup_file" where
  "backup_data pad_year db uid =
     \<lparr>f_meals = Some (map (backup_meal pad_year) (get_diets db uid)),
      f_manual_meals = Some (map (backup_manual_meal pad_year) (get_manual_meals db uid))\<rparr>"

text \<open>
  The rows that the two loops of \<open>restore_data\<close> add to the session, numbered from \<open>i\<close> in
  the order of insertion; \<open>None\<close> when an entry raises (a missing \<open>name\<close> or \<open>date\<close>, a
  date that is \<open>None\<close> or that \<open>strptime\<close> refuses) or makes the commit fail (a \<open>None\<close>
  name). A nutrition value that is absent or \<open>None\<close> is stored as the column default 0.0.
  The \<open>id\<close> of an entry is not read.
\<close>

fun new_meals :: "(string \<Rightarrow> datetime option) \<Rightarrow> nat \<Rightarrow> nat \<Rightarrow> meal_dict list \<Rightarrow> meal list option" where
  "new_meals lenient uid i [] = Some []"
| "new_meals lenient uid i (e # es) =
     (case (d_name e, d_date e) of
        (Some (Some nm), Some (Some ds)) \<Rightarrow>
          (case strptime lenient ds of
             Some dt \<Rightarrow>
               (case new_meals lenient uid (i + 1) es of
                  Some rows \<Rightarrow>
                    Some (\<lparr>meal_id = i, meal_user_id = uid, meal_name = nm,
                           calories = column_default (get_default (d_calories e) 0),
                           proteins = column_default (get_default (d_proteins e) 0),
                           carbs = column_default (get_default (d_carbs e) 0),
                           fats = column_default (get_default (d_fats e) 0),
                           meal_date = dt\<rparr> # rows)
                | None \<Rightarrow> None)
           | None \<Rightarrow> None)
      | _ \<Rightarrow> None)"

fun new_manual_meals ::
  "(string \<Rightarrow> datetime option) \<Rightarrow> nat \<Rightarrow> nat \<Rightarrow> meal_dict list \<Rightarrow> manual_meal list option" where
  "new_manual_meals lenient uid i [] = Some []"
| "new_manual_meals lenient uid i (e # es) =
     (case (d_name e, d_date e) of
        (Some (Some nm), Some (Some ds)) \<Rightarrow>
          (case strptime lenient ds of
             Some dt \<Rightarrow>
               (case new_manual_meals lenient uid (i + 1) es of
                  Some rows \<Rightarrow>
                    Some (\<lparr>manual_id = i, manual_user_id = uid, manual_name = nm,
                           manual_date = dt\<rparr> # rows)
                | None \<Rightarrow> None)
           | None \<Rightarrow> None)
      | _ \<Rightarrow> None)"

text \<open>
  \<open>restore_data\<close>: \<open>file\<close> is \<open>None\<close> for an upload that is not JSON
  (\<open>JSONDecodeError\<close>), \<open>Some Not_object\<close> for JSON that is not an object (\<open>data.get\<close>
  raises). All rows are committed together or, on any exception, none (rollback). After
  the commit \<open>st.rerun()\<close> ends the script run, so \<open>return True\<close> is not reached.
\<close>

definition restore_data ::
  "(string \<Rightarrow> datetime option) \<Rightarrow> bool \<Rightarrow> nat \<Rightarrow> backup_file json_object option \<Rightarrow> database
     \<Rightarrow> bool outcome \<times> database \<times> store_notice list" where
  "restore_data lenient commit_ok uid file db =
     (case file of
        None \<Rightarrow> (Returned False, db, [Error_bad_json])
      | Some Not_object \<Rightarrow> (Returned False, db, [Error_store])
      | Some (Object data) \<Rightarrow>
          (case new_meals lenient uid (next_id (map meal_id (meals db)))
                  (dict_get (f_meals data) []) of
             None \<Rightarrow> (Returned False, db, [Error_store])
           | Some ms \<Rightarrow>
               (case new_manual_meals lenient uid (next_id (map manual_id (manual_meals db)))
                       (dict_get (f_manual_meals data) []) of
                  None \<Rightarrow> (Returned False, db, [Error_store])
                | Some mms \<Rightarrow>
                    if commit_ok then
                      (Rerun,
                       db\<lparr>meals := meals db @ ms, manual_meals := manual_meals db @ mms\<rparr>,
                       [Success_restore])
                    else (Returned False, db, [Error_store]))))"

text \<open>The content of a row: everything but the id and the owner.\<close>

definition meal_content ::
  "meal \<Rightarrow> string \<times> real option \<times> real option \<times> real option \<times> real option \<times> datetime" where
  "meal_content m = (meal_name m, calories m, proteins m, carbs m, fats m, meal_date m)"

definition manual_content :: "manual_meal \<Rightarrow> string \<times> datetime" where
  "manual_content m = (manual_name m, manual_date m)"

section \<open>The round trip\<close>

lemma backup_meal_fields:
  "d_name (backup_meal pad_year m) = Some (Some (meal_name m))"
  "d_date (backup_meal pad_year m) = Some (Some (strftime pad_year (meal_date m)))"
  "d_calories (backup_meal pad_year m) = Some (calories m)"
  "d_proteins (backup_meal pad_year m) = Some (proteins m)"
  "d_carbs (backup_meal pad_year m) = Some (carbs m)"
  "d_fats (backup_meal pad_year m) = Some (fats m)"
  by (simp_all add: backup_meal_def)

lemma backup_manual_meal_fields:
  "d_name (backup_manual_meal pad_year m) = Some (Some (manual_name m))"
  "d_date (backup_manual_meal pad_year m) = Some (Some (strftime pad_year (manual_date m)))"
  by (simp_all add: backup_manual_meal_def)

lemma new_meals_backup:
  assumes "\<forall>m \<in> set ms. valid_datetime (meal_date m) \<and> (pad_year \<or> 1000 \<le> year (meal_date m))"
  shows "\<exists>rows. new_meals lenient uid i (map (backup_meal pad_year) ms) = Some rows
           \<and> map meal_content rows
               = map (\<lambda>m. (meal_name m, column_default (calories m), column_default (proteins m),
                           column_default (carbs m), column_default (fats m),
                           (meal_date m)\<lparr>microsecond := 0\<rparr>)) ms
           \<and> (\<forall>r \<in> set rows. meal_user_id r = uid)"
  using assms
proof (induction ms arbitrary: i)
  case Nil
  then show ?case by simp
next
  case (Cons m ms)
  then obtain rows where rows:
      "new_meals lenient uid (i + 1) (map (backup_meal pad_year) ms) = Some rows"
      "map meal_content rows
         = map (\<lambda>m. (meal_name m, column_default (calories m), column_default (proteins m),
                     column_default (carbs m), column_default (fats m),
                     (meal_date m)\<lparr>microsecond := 0\<rparr>)) ms"
      "\<forall>r \<in> set rows. meal_user_id r = uid"
    by fastforce
  have v: "valid_datetime (meal_date m)" "pad_year \<or> 1000 \<le> year (meal_date m)"
    using Cons.prems by simp_all
  have c: "meal_content \<lparr>meal_id = i, meal_user_id = uid, meal_name = meal_name m,
               calories = column_default (calories m), proteins = column_default (proteins m),
               carbs = column_default (carbs m), fats = column_default (fats m),
               meal_date = meal_date m\<lparr>microsecond := 0\<rparr>\<rparr>
             = (meal_name m, column_default (calories m), column_default (proteins m),
                column_default (carbs m), column_default (fats m),
                (meal_date m)\<lparr>microsecond := 0\<rparr>)"
    by (simp add: meal_content_def)
  show ?case
    using rows
    by (simp add: backup_meal_fields strptime_strftime [OF v] get_default_def c)
qed

lemma new_manual_meals_backup:
  assumes "\<forall>m \<in> set ms. valid_datetime (manual_date m)
             \<and> (pad_year \<or> 1000 \<le> year (manual_date m))"
  shows "\<exists>rows. new_manual_meals lenient uid i (map (backup_manual_meal pad_year) ms) = Some rows
           \<and> map manual_content rows
               = map (\<lambda>m. (manual_name m, (manual_date m)\<lparr>microsecond := 0\<rparr>)) ms
           \<and> (\<forall>r \<in> set rows. manual_user_id r = uid)"
  using assms
proof (induction ms arbitrary: i)
  case Nil
  then show ?case by simp
next
  case (Cons m ms)
  then obtain rows where rows:
      "new_manual_meals lenient uid (i + 1) (map (backup_manual_meal pad_year) ms) = Some rows"
      "map manual_content rows
         = map (\<lambda>m. (manual_name m, (manual_date m)\<lparr>microsecond := 0\<rparr>)) ms"
      "\<forall>r \<in> set rows. manual_user_id r = uid"
    by fastforce
  have v: "valid_datetime (manual_date m)" "pad_year \<or> 1000 \<le> year (manual_date m)"
    using Cons.prems by simp_all
  have c: "manual_content \<lparr>manual_id = i, manual_user_id = uid, manual_name = manual_name m,
               manual_date = manual_date m\<lparr>microsecond := 0\<rparr>\<rparr>
             = (manual_name m, (manual_date m)\<lparr>microsecond := 0\<rparr>)"
    by (simp add: manual_content_def)
  show ?case
    using rows
    by (simp add: backup_manual_meal_fields strptime_strftime [OF v] c)
qed

lemma filter_all_owner:
  "\<forall>r \<in> set rows. f r = uid \<Longrightarrow> filter (\<lambda>r. f r = V) rows = (if V = uid then rows else [])"
  by (induction rows) auto

lemma column_default_Some:
  "v \<noteq> None \<Longrightarrow> column_default v = v"
  by (cases v) (simp_all add: column_default_def)

lemma map_through:
  assumes "map f xs = map g ys"
  shows "map (\<lambda>x. k (f x)) xs = map (\<lambda>y. k (g y)) ys"
proof -
  have "map k (map f xs) = map k (map g ys)" using assms by simp
  then show ?thesis by (simp add: comp_def)
qed

text \<open>
  Claim C8, as the code has it. Let the timestamps of the rows of user \<open>U\<close> be ones that
  \<open>strftime\<close> prints with a four-digit year (the year is 1000 or later, or the platform
  pads \<open>%Y\<close>), and let \<open>U'\<close> have no rows. Restoring into \<open>U'\<close> the backup taken of \<open>U\<close>
  commits, and afterwards the meals of \<open>U'\<close> are, row for row (hence as multisets), the
  meals of \<open>U\<close> with their names, with their four nutrition values except that a NULL has
  become 0.0, and with their timestamps cut to whole seconds, so that the formatted
  timestamps are the same; when no nutrition value of \<open>U\<close> is NULL the names, nutrition
  values and formatted timestamps are exactly those of \<open>U\<close>. The manual meals of \<open>U'\<close> are
  the manual meals of \<open>U\<close> with their names and with their timestamps cut to whole seconds.
  The rows of every other user are as before.
\<close>

theorem restore_backup_round_trip:
  assumes "\<forall>m \<in> set (get_diets db U).
             valid_datetime (meal_date m) \<and> (pad_year \<or> 1000 \<le> year (meal_date m))"
      and "\<forall>m \<in> set (get_manual_meals db U).
             valid_datetime (manual_date m) \<and> (pad_year \<or> 1000 \<le> year (manual_date m))"
      and "get_diets db U' = []" and "get_manual_meals db U' = []"
  shows "\<exists>db'. restore_data lenient True U' (Some (Object (backup_data pad_year db U))) db
                  = (Rerun, db', [Success_restore])
           \<and> map meal_content (get_diets db' U')
               = map (\<lambda>m. (meal_name m, column_default (calories m), column_default (proteins m),
                           column_default (carbs m), column_default (fats m),
                           (meal_date m)\<lparr>microsecond := 0\<rparr>)) (get_diets db U)
           \<and> mset (map meal_content (get_diets db' U'))
               = mset (map (\<lambda>m. (meal_name m, column_default (calories m),
                                 column_default (proteins m), column_default (carbs m),
                                 column_default (fats m), (meal_date m)\<lparr>microsecond := 0\<rparr>))
                         (get_diets db U))
           \<and> map meal_name (get_diets db' U') = map meal_name (get_diets db U)
           \<and> map (\<lambda>m. strftime pad_year (meal_date m)) (get_diets db' U')
               = map (\<lambda>m. strftime pad_year (meal_date m)) (get_diets db U)
           \<and> ((\<forall>m \<in> set (get_diets db U). calories m \<noteq> None \<and> proteins m \<noteq> None
                                            \<and> carbs m \<noteq> None \<and> fats m \<noteq> None)
              \<longrightarrow> map (\<lambda>m. (meal_name m, calories m, proteins m, carbs m, fats m,
                             strftime pad_year (meal_date m))) (get_diets db' U')
                  = map (\<lambda>m. (meal_name m, calories m, proteins m, carbs m, fats m,
                             strftime pad_year (meal_date m))) (get_diets db U))
           \<and> map manual_content (get_manual_meals db' U')
               = map (\<lambda>m. (manual_name m, (manual_date m)\<lparr>microsecond := 0\<rparr>))
                   (get_manual_meals db U)
           \<and> mset (map manual_content (get_manual_meals db' U'))
               = mset (map (\<lambda>m. (manual_name m, (manual_date m)\<lparr>microsecond := 0\<rparr>))
                         (get_manual_meals db U))
           \<and> map (\<lambda>m. (manual_name m, strftime pad_year (manual_date m))) (get_manual_meals db' U')
               = map (\<lambda>m. (manual_name m, strftime pad_year (manual_date m)))
                   (get_manual_meals db U)
           \<and> (\<forall>V. V \<noteq> U' \<longrightarrow> get_diets db' V = get_diets db V
                            \<and> get_manual_meals db' V = get_manual_meals db V)"
proof -
  let ?g = "\<lambda>m. (meal_name m, column_default (calories m), column_default (proteins m),
                 column_default (carbs m), column_default (fats m),
                 (meal_date m)\<lparr>microsecond := 0\<rparr>)"
  let ?h = "\<lambda>m. (manual_name m, (manual_date m)\<lparr>microsecond := 0\<rparr>)"
  obtain ms where ms: "new_meals lenient U' (next_id (map meal_id (meals db)))
                         (map (backup_meal pad_year) (get_diets db U)) = Some ms"
      "map meal_content ms = map ?g (get_diets db U)"
      "\<forall>r \<in> set ms. meal_user_id r = U'"
    using new_meals_backup [OF assms(1)] by blast
  obtain mms where mms: "new_manual_meals lenient U' (next_id (map manual_id (manual_meals db)))
                         (map (backup_manual_meal pad_year) (get_manual_meals db U)) = Some mms"
      "map manual_content mms = map ?h (get_manual_meals db U)"
      "\<forall>r \<in> set mms. manual_user_id r = U'"
    using new_manual_meals_backup [OF assms(2)] by blast
  let ?db' = "db\<lparr>meals := meals db @ ms, manual_meals := manual_meals db @ mms\<rparr>"
  have r: "restore_data lenient True U' (Some (Object (backup_data pad_year db U))) db
             = (Rerun, ?db', [Success_restore])"
    by (simp add: restore_data_def backup_data_def dict_get_def ms(1) mms(1))
  have d: "get_diets ?db' V = get_diets db V @ (if V = U' then ms else [])" for V
    by (simp add: get_diets_def filter_all_owner [OF ms(3)])
  have m: "get_manual_meals ?db' V = get_manual_meals db V @ (if V = U' then mms else [])" for V
    by (simp add: get_manual_meals_def filter_all_owner [OF mms(3)])
  have dU: "get_diets ?db' U' = ms" by (simp add: d assms(3))
  have mU: "get_manual_meals ?db' U' = mms" by (simp add: m assms(4))
  have 1: "map meal_content (get_diets ?db' U') = map ?g (get_diets db U)"
    by (simp only: dU ms(2))
  have 2: "map meal_name (get_diets ?db' U') = map meal_name (get_diets db U)"
    using map_through [OF ms(2), of fst] by (simp add: dU meal_content_def)
  have 3: "map (\<lambda>m. strftime pad_year (meal_date m)) (get_diets ?db' U')
             = map (\<lambda>m. strftime pad_year (meal_date m)) (get_diets db U)"
    using map_through [OF ms(2), of "\<lambda>c. strftime pad_year (snd (snd (snd (snd (snd c)))))"]
    by (simp add: dU meal_content_def strftime_microsecond)
  have 4: "map (\<lambda>m. (meal_name m, calories m, proteins m, carbs m, fats m,
                     strftime pad_year (meal_date m))) (get_diets ?db' U')
             = map (\<lambda>m. (meal_name m, calories m, proteins m, carbs m, fats m,
                     strftime pad_year (meal_date m))) (get_diets db U)"
    if n: "\<forall>m \<in> set (get_diets db U). calories m \<noteq> None \<and> proteins m \<noteq> None
                                       \<and> carbs m \<noteq> None \<and> fats m \<noteq> None"
  proof -
    have "map (\<lambda>m. (meal_name m, calories m, proteins m, carbs m, fats m,
                     strftime pad_year (meal_date m))) ms
            = map (\<lambda>m. (meal_name m, column_default (calories m), column_default (proteins m),
                     column_default (carbs m), column_default (fats m),
                     strftime pad_year (meal_date m))) (get_diets db U)"
      using map_through [OF ms(2),
          of "\<lambda>c. (fst c, fst (snd c), fst (snd (snd c)), fst (snd (snd (snd c))),
                    fst (snd (snd (snd (snd c)))),
                    strftime pad_year (snd (snd (snd (snd (snd c))))))"]
      by (simp add: meal_content_def strftime_microsecond)
    also have "\<dots> = map (\<lambda>m. (meal_name m, calories m, proteins m, carbs m, fats m,
                     strftime pad_year (meal_date m))) (get_diets db U)"
      using n by (intro map_cong refl) (simp add: column_default_Some)
    finally show ?thesis by (simp only: dU)
  qed
  have 5: "map manual_content (get_manual_meals ?db' U') = map ?h (get_manual_meals db U)"
    by (simp only: mU mms(2))
  have 6: "map (\<lambda>m. (manual_name m, strftime pad_year (manual_date m))) (get_manual_meals ?db' U')
             = map (\<lambda>m. (manual_name m, strftime pad_year (manual_date m)))
                 (get_manual_meals db U)"
    using map_through [OF mms(2), of "\<lambda>c. (fst c, strftime pad_year (snd c))"]
    by (simp add: mU manual_content_def strftime_microsecond)
  have 7: "\<forall>V. V \<noteq> U' \<longrightarrow> get_diets ?db' V = get_diets db V
                            \<and> get_manual_meals ?db' V = get_manual_meals db V"
    by (simp add: d m)
  have e1: "mset (map meal_content (get_diets ?db' U')) = mset (map ?g (get_diets db U))"
    by (simp only: 1)
  have e5: "mset (map manual_content (get_manual_meals ?db' U'))
              = mset (map ?h (get_manual_meals db U))"
    by (simp only: 5)
  have e4: "(\<forall>m \<in> set (get_diets db U). calories m \<noteq> None \<and> proteins m \<noteq> None
                                       \<and> carbs m \<noteq> None \<and> fats m \<noteq> None)
            \<longrightarrow> map (\<lambda>m. (meal_name m, calories m, proteins m, carbs m, fats m,
                     strftime pad_year (meal_date m))) (get_diets ?db' U')
             = map (\<lambda>m. (meal_name m, calories m, proteins m, carbs m, fats m,
                     strftime pad_year (meal_date m))) (get_diets db U)"
    using 4 by (rule impI)
  show ?thesis
    by (rule exI [of _ ?db']) (intro conjI r 1 e1 2 3 e4 5 e5 6 7)
qed

lemma digit_chars:
  "digit 0 = CHR ''0''" "digit 1 = CHR ''1''" "digit 2 = CHR ''2''" "digit 3 = CHR ''3''"
  "digit 4 = CHR ''4''" "digit 5 = CHR ''5''" "digit 6 = CHR ''6''" "digit 7 = CHR ''7''"
  "digit 8 = CHR ''8''" "digit 9 = CHR ''9''"
  by (simp_all add: digit_def char_of_def bit_Suc_0_iff)

lemma strftime_example_date: "strftime pad_year example_date = ''2024-11-05 09:07:03''"
  by (simp add: strftime_def pad4_def pad2_def example_date_def digit_chars del: One_nat_def)

lemma valid_example_date:
  "valid_datetime example_date \<and> (pad_year \<or> 1000 \<le> year example_date)"
  by (simp add: valid_datetime_def example_date_def days_in_month_def)

lemma strptime_example_date:
  "strptime lenient ''2024-11-05 09:07:03'' = Some (example_date\<lparr>microsecond := 0\<rparr>)"
  using strptime_strftime [of example_date False lenient] valid_example_date [of False]
  by (simp add: strftime_example_date)

theorem restore_backup_round_trip_witness:
  "\<exists>db'. restore_data (\<lambda>s. None) True 3 (Some (Object (backup_data False example_db 1))) example_db
            = (Rerun, db', [Success_restore])
      \<and> map meal_content (get_diets db' 3)
          = [(''rice'', Some 130, Some (27 / 10), Some 28, Some (3 / 10),
              example_date\<lparr>microsecond := 0\<rparr>),
             (''egg'', Some 155, Some 13, Some 0, Some 11, example_date\<lparr>microsecond := 0\<rparr>)]
      \<and> map (\<lambda>m. strftime False (meal_date m)) (get_diets db' 3)
          = [''2024-11-05 09:07:03'', ''2024-11-05 09:07:03'']
      \<and> map manual_content (get_manual_meals db' 3)
          = [(''soup'', example_date\<lparr>microsecond := 0\<rparr>)]
      \<and> get_diets db' 2 = get_diets example_db 2"
proof -
  have d1: "get_diets example_db 1 =
     [\<lparr>meal_id = 1, meal_user_id = 1, meal_name = ''rice'', calories = Some 130,
       proteins = Some (27 / 10), carbs = Some 28, fats = Some (3 / 10),
       meal_date = example_date\<rparr>,
      \<lparr>meal_id = 3, meal_user_id = 1, meal_name = ''egg'', calories = Some 155,
       proteins = Some 13, carbs = None, fats = Some 11, meal_date = example_date\<rparr>]"
    by (simp add: get_diets_def example_db_def)
  have m1: "get_manual_meals example_db 1 =
     [\<lparr>manual_id = 1, manual_user_id = 1, manual_name = ''soup'', manual_date = example_date\<rparr>]"
    by (simp add: get_manual_meals_def example_db_def)
  have v1: "\<forall>m \<in> set (get_diets example_db 1).
              valid_datetime (meal_date m) \<and> (False \<or> 1000 \<le> year (meal_date m))"
    using d1 valid_example_date [of False] by simp
  have v2: "\<forall>m \<in> set (get_manual_meals example_db 1).
              valid_datetime (manual_date m) \<and> (False \<or> 1000 \<le> year (manual_date m))"
    using m1 valid_example_date [of False] by simp
  have f1: "get_diets example_db 3 = []" by (simp add: get_diets_def example_db_def)
  have f2: "get_manual_meals example_db 3 = []" by (simp add: get_manual_meals_def example_db_def)
  have n: "(2::nat) \<noteq> 3" by simp
  obtain db' where db':
      "restore_data (\<lambda>s. None) True 3 (Some (Object (backup_data False example_db 1))) example_db
         = (Rerun, db', [Success_restore])"
      "map meal_content (get_diets db' 3)
         = map (\<lambda>m. (meal_name m, column_default (calories m), column_default (proteins m),
                     column_default (carbs m), column_default (fats m),
                     (meal_date m)\<lparr>microsecond := 0\<rparr>)) (get_diets example_db 1)"
      "map (\<lambda>m. strftime False (meal_date m)) (get_diets db' 3)
         = map (\<lambda>m. strftime False (meal_date m)) (get_diets example_db 1)"
      "map manual_content (get_manual_meals db' 3)
         = map (\<lambda>m. (manual_name m, (manual_date m)\<lparr>microsecond := 0\<rparr>))
             (get_manual_meals example_db 1)"
      "\<forall>V. V \<noteq> 3 \<longrightarrow> get_diets db' V = get_diets example_db V
                     \<and> get_manual_meals db' V = get_manual_meals example_db V"
    using restore_backup_round_trip [OF v1 v2 f1 f2, of "\<lambda>s. None"] by blast
  have a: "map meal_content (get_diets db' 3)
          = [(''rice'', Some 130, Some (27 / 10), Some 28, Some (3 / 10),
              example_date\<lparr>microsecond := 0\<rparr>),
             (''egg'', Some 155, Some 13, Some 0, Some 11, example_date\<lparr>microsecond := 0\<rparr>)]"
    unfolding db'(2) d1 by (simp add: column_default_def)
  have b: "map (\<lambda>m. strftime False (meal_date m)) (get_diets db' 3)
          = [''2024-11-05 09:07:03'', ''2024-11-05 09:07:03'']"
    unfolding db'(3) d1 by (simp add: strftime_example_date)
  have c: "map manual_content (get_manual_meals db' 3)
          = [(''soup'', example_date\<lparr>microsecond := 0\<rparr>)]"
    unfolding db'(4) m1 by simp
  have e: "get_diets db' 2 = get_diets example_db 2" using db'(5) n by blast
  show ?thesis
    by (rule exI [of _ db']) (intro conjI db'(1) a b c e)
qed

text \<open>
  The round trip does not reproduce the rows of every user. The egg of user 1 in the
  example database has a NULL carbohydrate value: the backup holds \<open>null\<close>, and the row
  restored into user 3 holds 0.0. And a row dated in the year 999 (one that a restore can
  insert) is printed, on a platform that does not pad \<open>%Y\<close>, as \<open>999-01-01 00:00:00\<close>,
  which \<open>strptime\<close> refuses: restoring that backup fails and inserts nothing.
\<close>

definition early_db :: database where
  "early_db =
     \<lparr>users = [\<lparr>user_id = 1, username = ''kim'', password = ''h1''\<rparr>],
      meals = [\<lparr>meal_id = 1, meal_user_id = 1, meal_name = ''rice'', calories = Some 130,
                 proteins = Some (27 / 10), carbs = Some 28, fats = Some (3 / 10),
                 meal_date = \<lparr>year = 999, month = 1, day = 1, hour = 0, minute = 0, second = 0,
                               microsecond = 0\<rparr>\<rparr>],
      manual_meals = [], product_translations = []\<rparr>"

theorem restore_backup_counterexample:
  "map (\<lambda>m. (meal_name m, carbs m)) (get_diets example_db 1)
     = [(''rice'', Some 28), (''egg'', None)]
   \<and> map (\<lambda>m. (meal_name m, carbs m))
       (get_diets (fst (snd (restore_data (\<lambda>s. None) True 3
                              (Some (Object (backup_data False example_db 1))) example_db))) 3)
     = [(''rice'', Some 28), (''egg'', Some 0)]
   \<and> map (\<lambda>m. strftime False (meal_date m)) (get_diets early_db 1) = [''999-01-01 00:00:00'']
   \<and> restore_data (\<lambda>s. Some example_date) True 3
        (Some (Object (backup_data False early_db 1))) early_db
     = (Returned False, early_db, [Error_store])"
proof -
  have d1: "get_diets example_db 1 =
     [\<lparr>meal_id = 1, meal_user_id = 1, meal_name = ''rice'', calories = Some 130,
       proteins = Some (27 / 10), carbs = Some 28, fats = Some (3 / 10),
       meal_date = example_date\<rparr>,
      \<lparr>meal_id = 3, meal_user_id = 1, meal_name = ''egg'', calories = Some 155,
       proteins = Some 13, carbs = None, fats = Some 11, meal_date = example_date\<rparr>]"
    by (simp add: get_diets_def example_db_def)
  have m1: "get_manual_meals example_db 1 =
     [\<lparr>manual_id = 1, manual_user_id = 1, manual_name = ''soup'', manual_date = example_date\<rparr>]"
    by (simp add: get_manual_meals_def example_db_def)
  have a: "map (\<lambda>m. (meal_name m, carbs m)) (get_diets example_db 1)
             = [(''rice'', Some 28), (''egg'', None)]"
    unfolding d1 by simp
  have r: "fst (snd (restore_data (\<lambda>s. None) True 3
                       (Some (Object (backup_data False example_db 1))) example_db))
           = example_db\<lparr>meals := meals example_db @
               [\<lparr>meal_id = 4, meal_user_id = 3, meal_name = ''rice'', calories = Some 130,
                 proteins = Some (27 / 10), carbs = Some 28, fats = Some (3 / 10),
                 meal_date = example_date\<lparr>microsecond := 0\<rparr>\<rparr>,
                \<lparr>meal_id = 5, meal_user_id = 3, meal_name = ''egg'', calories = Some 155,
                 proteins = Some 13, carbs = Some 0, fats = Some 11,
                 meal_date = example_date\<lparr>microsecond := 0\<rparr>\<rparr>],
              manual_meals := manual_meals example_db @
               [\<lparr>manual_id = 3, manual_user_id = 3, manual_name = ''soup'',
                 manual_date = example_date\<lparr>microsecond := 0\<rparr>\<rparr>]\<rparr>"
  proof -
    have bk: "backup_data False example_db 1
                = \<lparr>f_meals = Some [backup_meal False \<lparr>meal_id = 1, meal_user_id = 1,
                      meal_name = ''rice'', calories = Some 130, proteins = Some (27 / 10),
                      carbs = Some 28, fats = Some (3 / 10), meal_date = example_date\<rparr>,
                    backup_meal False \<lparr>meal_id = 3, meal_user_id = 1, meal_name = ''egg'',
                      calories = Some 155, proteins = Some 13, carbs = None, fats = Some 11,
                      meal_date = example_date\<rparr>],
                   f_manual_meals = Some [backup_manual_meal False \<lparr>manual_id = 1,
                      manual_user_id = 1, manual_name = ''soup'', manual_date = example_date\<rparr>]\<rparr>"
      unfolding backup_data_def d1 m1 by simp
    have ids: "next_id (map meal_id (meals example_db)) = 4"
        "next_id (map manual_id (manual_meals example_db)) = 3"
      by (simp_all add: next_id_def example_db_def)
    show ?thesis
      unfolding bk restore_data_def
      by (simp add: ids dict_get_def backup_meal_def backup_manual_meal_def
            strftime_example_date strptime_example_date get_default_def column_default_def)
  qed
  have b: "map (\<lambda>m. (meal_name m, carbs m))
       (get_diets (fst (snd (restore_data (\<lambda>s. None) True 3
                              (Some (Object (backup_data False example_db 1))) example_db))) 3)
     = [(''rice'', Some 28), (''egg'', Some 0)]"
    unfolding r by (simp add: get_diets_def example_db_def)
  have s: "strftime False \<lparr>year = 999, month = 1, day = 1, hour = 0, minute = 0, second = 0,
                            microsecond = 0\<rparr> = ''999-01-01 00:00:00''"
    by (simp add: strftime_def pad2_def digit_chars del: One_nat_def)
  have c: "map (\<lambda>m. strftime False (meal_date m)) (get_diets early_db 1)
             = [''999-01-01 00:00:00'']"
    by (simp add: get_diets_def early_db_def s del: One_nat_def)
  have d: "restore_data (\<lambda>s. Some example_date) True 3
             (Some (Object (backup_data False early_db 1))) early_db
           = (Returned False, early_db, [Error_store])"
    by (simp add: restore_data_def backup_data_def get_diets_def get_manual_meals_def
          early_db_def dict_get_def backup_meal_def s strptime_def del: One_nat_def)
  show ?thesis by (intro conjI a b c d)
qed

section \<open>Projection of product records\<close>

text \<open>
  A raw product record of the search endpoint, restricted to the five requested fields.
  A field is \<open>None\<close> when its key is absent, \<open>Some None\<close> when its value is \<open>null\<close>, and
  \<open>Some (Some s)\<close> when it is the string \<open>s\<close> (the service sends text in these fields).
\<close>

record raw_product =
  code :: "pystr option"
  product_name :: "pystr option"
  product_name_KR :: "pystr option"
  brands :: "pystr option"
  categories :: "pystr option"

text \<open>The display record: product name, barcode, manufacturer, categories.\<close>

record display_product =
  disp_name :: pystr
  disp_barcode :: pystr
  disp_maker :: string
  disp_categories :: string

definition no_barcode :: string where
  "no_barcode = [CHR 0xEB, CHR 0xB0, CHR 0x94, CHR 0xEC, CHR 0xBD, CHR 0x94, CHR 0xEB, CHR 0x93,
                 CHR 0x9C, CHR 0x20, CHR 0xEC, CHR 0x97, CHR 0x86, CHR 0xEC, CHR 0x9D, CHR 0x8C]"

definition no_maker :: string where
  "no_maker = [CHR 0xEC, CHR 0xA0, CHR 0x9C, CHR 0xEC, CHR 0xA1, CHR 0xB0, CHR 0xEC, CHR 0x82,
               CHR 0xAC, CHR 0x20, CHR 0xEC, CHR 0x97, CHR 0x86, CHR 0xEC, CHR 0x9D, CHR 0x8C]"

definition no_category :: string where
  "no_category = [CHR 0xEC, CHR 0xB9, CHR 0xB4, CHR 0xED, CHR 0x85, CHR 0x8C, CHR 0xEA, CHR 0xB3,
                  CHR 0xA0, CHR 0xEB, CHR 0xA6, CHR 0xAC, CHR 0x20, CHR 0xEC, CHR 0x97, CHR 0x86,
                  CHR 0xEC, CHR 0x9D, CHR 0x8C]"

text \<open>\<open>d.get(key)\<close>: \<open>None\<close> for an absent key.\<close>

definition get_or_none :: "'a option option \<Rightarrow> 'a option" where
  "get_or_none entry = (case entry of None \<Rightarrow> None | Some v \<Rightarrow> v)"

text \<open>\<open>s.split(',')\<close> and \<open>sep.join(parts)\<close>.\<close>

fun split_on :: "char \<Rightarrow> string \<Rightarrow> string list" where
  "split_on c [] = [[]]"
| "split_on c (x # xs) =
     (if x = c then [] # split_on c xs
      else (case split_on c xs of
              part # parts \<Rightarrow> (x # part) # parts
            | [] \<Rightarrow> [[x]]))"

fun join :: "string \<Rightarrow> string list \<Rightarrow> string" where
  "join sep [] = []"
| "join sep [x] = x"
| "join sep (x # y # ys) = x @ sep @ join sep (y # ys)"

text \<open>
  \<open>", ".join(product.get(key, default).split(','))\<close>; a \<open>null\<close> value has no \<open>split\<close>
  (\<open>AttributeError\<close>).
\<close>

definition comma_field :: "pystr option \<Rightarrow> string \<Rightarrow> py_error + string" where
  "comma_field entry dflt =
     (case get_default entry dflt of
        None \<Rightarrow> Inl AttributeError
      | Some s \<Rightarrow> Inr (join '', '' (split_on CHR '','' s)))"


text \<open>
  The body of the loop of \<open>get_api_foods_cached\<close> (the listing): first the name, then the
  dictionary that is appended. The state is the in-memory cache of
  \<open>translate_to_korean_cached\<close> with the database; the results carry the state, the
  notices and the number of calls to the translation service, as
  \<open>translate_to_korean_cached\<close> does. With a barcode the listing calls
  \<open>translate_to_korean_cached(product_name, barcode=barcode)\<close>, without one
  \<open>translate_to_korean_cached(product_name)\<close>.
\<close>

definition api_food_name ::
  "translator \<Rightarrow> (string \<Rightarrow> bool) \<Rightarrow> raw_product \<Rightarrow> korean_cache \<times> database
     \<Rightarrow> pystr \<times> (korean_cache \<times> database) \<times> notice list \<times> nat" where
  "api_food_name tr commit_ok p st =
     (let bc = get_default (code p) no_barcode in
      if bc \<noteq> Some no_barcode then
        (let product_name_korean = get_or_none (product_name_KR p) in
         if truthy product_name_korean then (product_name_korean, st, [], 0)
         else
           (let pn = get_or_none (product_name p) in
            if truthy pn then translate_to_korean_cached tr commit_ok pn (Some bc) st
            else (Some no_name, st, [], 0)))
      else
        (let pn = get_or_none (product_name p) in
         if truthy pn then translate_to_korean_cached tr commit_ok pn None st
         else (Some no_name, st, [], 0)))"

definition display_row ::
  "pystr \<Rightarrow> raw_product \<Rightarrow> py_error + display_product" where
  "display_row nm p =
     (case comma_field (brands p) no_maker of
        Inl e \<Rightarrow> Inl e
      | Inr maker \<Rightarrow>
          (case comma_field (categories p) no_category of
             Inl e \<Rightarrow> Inl e
           | Inr cats \<Rightarrow>
               Inr \<lparr>disp_name = nm, disp_barcode = get_default (code p) no_barcode,
                     disp_maker = maker, disp_categories = cats\<rparr>))"

definition api_food_row ::
  "translator \<Rightarrow> (string \<Rightarrow> bool) \<Rightarrow> raw_product \<Rightarrow> korean_cache \<times> database
     \<Rightarrow> (py_error + display_product) \<times> (korean_cache \<times> database) \<times> notice list \<times> nat" where
  "api_food_row tr commit_ok p st =
     (case api_food_name tr commit_ok p st of
        (nm, st', ns, k) \<Rightarrow> (display_row nm p, st', ns, k))"

text \<open>
  The loop of \<open>get_api_foods_cached\<close> over the products: an exception in the body is caught
  by the function, which then returns \<open>[]\<close> for the whole page.
\<close>

fun api_foods_loop ::
  "translator \<Rightarrow> (string \<Rightarrow> bool) \<Rightarrow> raw_product list \<Rightarrow> display_product list
     \<Rightarrow> korean_cache \<times> database \<Rightarrow> notice list \<Rightarrow> nat
     \<Rightarrow> display_product list \<times> (korean_cache \<times> database) \<times> notice list \<times> nat" where
  "api_foods_loop tr commit_ok [] translated_products st ns k = (translated_products, st, ns, k)"
| "api_foods_loop tr commit_ok (p # ps) translated_products st ns k =
     (case api_food_row tr commit_ok p st of
        (Inl e, st', ns', k') \<Rightarrow> ([], st', ns @ ns' @ [Error_unexpected], k + k')
      | (Inr row, st', ns', k') \<Rightarrow>
          api_foods_loop tr commit_ok ps (translated_products @ [row]) st' (ns @ ns') (k + k'))"

text \<open>The body of \<open>get_api_foods_cached\<close>, given what the request for the page produced.\<close>

definition get_api_foods_body ::
  "translator \<Rightarrow> (string \<Rightarrow> bool) \<Rightarrow> raw_product list option response
     \<Rightarrow> korean_cache \<times> database
     \<Rightarrow> display_product list \<times> (korean_cache \<times> database) \<times> notice list \<times> nat" where
  "get_api_foods_body tr commit_ok resp st =
     (case resp of
        Transport_failure \<Rightarrow> ([], st, [Error_transport], 0)
      | HTTP_failure \<Rightarrow> ([], st, [Error_http], 0)
      | Other_failure \<Rightarrow> ([], st, [Error_unexpected], 0)
      | Body products \<Rightarrow> api_foods_loop tr commit_ok (dict_get products []) [] st [] 0)"

text \<open>
  \<open>get_api_foods_cached\<close> behind \<open>@st.cache_data(ttl=3600)\<close>, called with \<open>page\<close> and
  \<open>page_size\<close>: \<open>net page page_size\<close> is what the request for that page produces. A page
  that the in-memory cache of the listing answers is returned as it was stored, and
  nothing else happens.
\<close>

type_synonym foods_cache = "(int \<times> int, display_product list) memo"

definition get_api_foods_cached ::
  "translator \<Rightarrow> (string \<Rightarrow> bool) \<Rightarrow> (int \<Rightarrow> int \<Rightarrow> raw_product list option response)
     \<Rightarrow> int \<Rightarrow> int \<Rightarrow> foods_cache \<times> korean_cache \<times> database
     \<Rightarrow> display_product list \<times> (foods_cache \<times> korean_cache \<times> database) \<times> notice list \<times> nat" where
  "get_api_foods_cached tr commit_ok net page page_size st =
     (case fst st (page, page_size) of
        Some (v, ns) \<Rightarrow> (v, st, ns, 0)
      | None \<Rightarrow>
          (case get_api_foods_body tr commit_ok (net page page_size) (snd st) of
             (v, st', ns, k) \<Rightarrow> (v, ((fst st)((page, page_size) \<mapsto> (v, ns)), st'), ns, k)))"

text \<open>
  The search results of \<open>manage_meals\<close>: the element expression of the list comprehension,
  its filter, and the comprehension itself, in which an exception is not caught. The search
  path always passes the barcode argument:
  \<open>translate_to_korean_cached(product.get('product_name', ...), barcode=product.get('code', None))\<close>.
\<close>

definition search_result_name ::
  "translator \<Rightarrow> (string \<Rightarrow> bool) \<Rightarrow> raw_product \<Rightarrow> korean_cache \<times> database
     \<Rightarrow> pystr \<times> (korean_cache \<times> database) \<times> notice list \<times> nat" where
  "search_result_name tr commit_ok p st =
     (if truthy (get_or_none (product_name_KR p)) then (get_or_none (product_name_KR p), st, [], 0)
      else translate_to_korean_cached tr commit_ok (get_default (product_name p) no_name)
             (Some (get_or_none (code p))) st)"

definition search_result_row ::
  "translator \<Rightarrow> (string \<Rightarrow> bool) \<Rightarrow> raw_product \<Rightarrow> korean_cache \<times> database
     \<Rightarrow> (py_error + display_product) \<times> (korean_cache \<times> database) \<times> notice list \<times> nat" where
  "search_result_row tr commit_ok p st =
     (case search_result_name tr commit_ok p st of
        (nm, st', ns, k) \<Rightarrow> (display_row nm p, st', ns, k))"

definition search_result_kept :: "raw_product \<Rightarrow> bool" where
  "search_result_kept p =
     (truthy (get_or_none (product_name p)) \<or> truthy (get_or_none (product_name_KR p)))"

fun products_filtered ::
  "translator \<Rightarrow> (string \<Rightarrow> bool) \<Rightarrow> raw_product list \<Rightarrow> korean_cache \<times> database
     \<Rightarrow> (py_error + display_product list) \<times> (korean_cache \<times> database) \<times> notice list \<times> nat" where
  "products_filtered tr commit_ok [] st = (Inr [], st, [], 0)"
| "products_filtered tr commit_ok (p # ps) st =
     (if search_result_kept p then
        (case search_result_row tr commit_ok p st of
           (Inl e, st', ns, k) \<Rightarrow> (Inl e, st', ns, k)
         | (Inr row, st', ns, k) \<Rightarrow>
             (case products_filtered tr commit_ok ps st' of
                (Inl e, st'', ns', k') \<Rightarrow> (Inl e, st'', ns @ ns', k + k')
              | (Inr rows, st'', ns', k') \<Rightarrow> (Inr (row # rows), st'', ns @ ns', k + k')))
      else products_filtered tr commit_ok ps st)"

section \<open>The two projections compared\<close>

text \<open>
  Claim C2, as the code has it. Take a record that the search path keeps (a non-empty
  \<open>product_name\<close> or \<open>product_name_KR\<close>) and whose code is not the text of the "no barcode"
  marker. When the record has a code, the listing and the search path compute the same
  display record with the same effects on the translation table and on the in-memory
  cache: the name is the pre-localized name when that is non-empty, and otherwise the
  translation of the original name, looked up and persisted under the code. When the
  record has no code and no non-empty pre-localized name, both translate the original name
  without a barcode, so without persistence: the listing by
  \<open>translate_to_korean_cached(product_name)\<close> and the search path by
  \<open>translate_to_korean_cached(product_name, barcode=None)\<close>, two calls that the in-memory
  cache keeps apart; when it holds the same for both (in particular when it answers
  neither), the two paths compute the same display record, show the same notices, make the
  same number of calls to the translation service and leave the database as it was. A record with neither name is shown by the listing
  under the "no name" marker, without translation, and is dropped by the search path.
\<close>

theorem projections_agree:
  "(search_result_kept p \<and> code p \<noteq> Some (Some no_barcode) \<and> code p \<noteq> None
    \<longrightarrow> api_food_row tr commit_ok p st = search_result_row tr commit_ok p st
      \<and> api_food_name tr commit_ok p st
          = (if truthy (get_or_none (product_name_KR p))
             then (get_or_none (product_name_KR p), st, [], 0)
             else translate_to_korean_cached tr commit_ok (get_or_none (product_name p))
                    (Some (get_or_none (code p))) st))
   \<and> (search_result_kept p \<and> code p = None \<and> \<not> truthy (get_or_none (product_name_KR p))
      \<and> fst st (get_or_none (product_name p), None)
          = fst st (get_or_none (product_name p), Some None)
    \<longrightarrow> fst (api_food_row tr commit_ok p st) = fst (search_result_row tr commit_ok p st)
      \<and> snd (fst (snd (api_food_row tr commit_ok p st)))
          = snd (fst (snd (search_result_row tr commit_ok p st)))
      \<and> snd (snd (api_food_row tr commit_ok p st)) = snd (snd (search_result_row tr commit_ok p st))
      \<and> snd (fst (snd (api_food_row tr commit_ok p st))) = snd st
      \<and> api_food_name tr commit_ok p st
          = translate_to_korean_cached tr commit_ok (get_or_none (product_name p)) None st
      \<and> search_result_name tr commit_ok p st
          = translate_to_korean_cached tr commit_ok (get_or_none (product_name p)) (Some None) st)
   \<and> (\<not> search_result_kept p
    \<longrightarrow> api_food_name tr commit_ok p st = (Some no_name, st, [], 0)
      \<and> products_filtered tr commit_ok [p] st = (Inr [], st, [], 0))"
proof (intro conjI impI)
  assume h: "search_result_kept p \<and> code p \<noteq> Some (Some no_barcode) \<and> code p \<noteq> None"
  then show n: "api_food_name tr commit_ok p st
          = (if truthy (get_or_none (product_name_KR p))
             then (get_or_none (product_name_KR p), st, [], 0)
             else translate_to_korean_cached tr commit_ok (get_or_none (product_name p))
                    (Some (get_or_none (code p))) st)"
    by (auto simp: api_food_name_def search_result_kept_def get_default_def get_or_none_def
          truthy_def Let_def split: option.splits)
  have "search_result_name tr commit_ok p st = api_food_name tr commit_ok p st"
    unfolding n using h
    by (auto simp: search_result_name_def search_result_kept_def get_default_def get_or_none_def
          truthy_def split: option.splits)
  then show "api_food_row tr commit_ok p st = search_result_row tr commit_ok p st"
    by (simp add: api_food_row_def search_result_row_def)
next
  assume h: "search_result_kept p \<and> code p = None \<and> \<not> truthy (get_or_none (product_name_KR p))
      \<and> fst st (get_or_none (product_name p), None)
          = fst st (get_or_none (product_name p), Some None)"
  let ?pn = "get_or_none (product_name p)"
  have t: "truthy ?pn" using h by (auto simp: search_result_kept_def)
  then have d: "get_default (product_name p) no_name = ?pn"
    by (auto simp: get_default_def get_or_none_def truthy_def split: option.splits)
  show a: "api_food_name tr commit_ok p st = translate_to_korean_cached tr commit_ok ?pn None st"
    using h t by (simp add: api_food_name_def get_default_def Let_def)
  show s: "search_result_name tr commit_ok p st
             = translate_to_korean_cached tr commit_ok ?pn (Some None) st"
    using h by (simp add: search_result_name_def d get_or_none_def)
  have "\<exists>v c1 c2 ns k.
          api_food_name tr commit_ok p st = (v, (c1, snd st), ns, k)
          \<and> search_result_name tr commit_ok p st = (v, (c2, snd st), ns, k)"
  proof (cases "fst st (?pn, None)")
    case None
    then have n2: "fst st (?pn, Some None) = None" using h by simp
    obtain v db' ns k where
      b: "translate_to_korean_body tr commit_ok ?pn None (snd st) = (v, db', ns, k)"
      by (metis prod_cases4)
    have db': "db' = snd st"
      using b by (auto simp: translate_to_korean_body_def truthy_def split: option.splits)
    have "api_food_name tr commit_ok p st
            = (v, ((fst st)((?pn, None) \<mapsto> (v, ns)), snd st), ns, k)"
      using None b db' by (simp add: a translate_to_korean_cached_def default_None_def)
    moreover have "search_result_name tr commit_ok p st
            = (v, ((fst st)((?pn, Some None) \<mapsto> (v, ns)), snd st), ns, k)"
      using n2 b db' by (simp add: s translate_to_korean_cached_def default_None_def)
    ultimately show ?thesis by blast
  next
    case (Some e)
    then have s2: "fst st (?pn, Some None) = Some e" using h by simp
    obtain v ns where e: "e = (v, ns)" by (cases e) auto
    have "api_food_name tr commit_ok p st = (v, (fst st, snd st), ns, 0)"
      using Some e by (simp add: a translate_to_korean_cached_def)
    moreover have "search_result_name tr commit_ok p st = (v, (fst st, snd st), ns, 0)"
      using s2 e by (simp add: s translate_to_korean_cached_def)
    ultimately show ?thesis by blast
  qed
  then obtain v c1 c2 ns k where
    a': "api_food_name tr commit_ok p st = (v, (c1, snd st), ns, k)" and
    s': "search_result_name tr commit_ok p st = (v, (c2, snd st), ns, k)"
    by blast
  show "fst (api_food_row tr commit_ok p st) = fst (search_result_row tr commit_ok p st)"
    by (simp add: api_food_row_def search_result_row_def a' s')
  show "snd (fst (snd (api_food_row tr commit_ok p st)))
          = snd (fst (snd (search_result_row tr commit_ok p st)))"
    by (simp add: api_food_row_def search_result_row_def a' s')
  show "snd (snd (api_food_row tr commit_ok p st)) = snd (snd (search_result_row tr commit_ok p st))"
    by (simp add: api_food_row_def search_result_row_def a' s')
  show "snd (fst (snd (api_food_row tr commit_ok p st))) = snd st"
    by (simp add: api_food_row_def a')
next
  assume "\<not> search_result_kept p"
  then show "api_food_name tr commit_ok p st = (Some no_name, st, [], 0)"
    by (auto simp: api_food_name_def search_result_kept_def get_default_def get_or_none_def
          truthy_def Let_def split: option.splits)
next
  assume "\<not> search_result_kept p"
  then show "products_filtered tr commit_ok [p] st = (Inr [], st, [], 0)"
    by simp
qed

text \<open>
  The scenario of the specification: one product with code 123, no pre-localized name and
  the name "Chicken Breast"; and a product without a code.
\<close>

definition chicken_breast :: raw_product where
  "chicken_breast =
     \<lparr>code = Some (Some ''123''), product_name = Some (Some ''Chicken Breast''),
      product_name_KR = None, brands = Some (Some ''Acme,Best Foods''), categories = None\<rparr>"

definition loose_rice :: raw_product where
  "loose_rice =
     \<lparr>code = None, product_name = Some (Some ''Rice''), product_name_KR = None,
      brands = None, categories = Some (Some ''grains'')\<rparr>"

theorem projections_agree_witness:
  "api_food_row (\<lambda>x. Some ''dak-gaseumsal'') (\<lambda>b. True) chicken_breast (Map.empty, empty_db)
     = search_result_row (\<lambda>x. Some ''dak-gaseumsal'') (\<lambda>b. True) chicken_breast
         (Map.empty, empty_db)
   \<and> search_result_row (\<lambda>x. Some ''dak-gaseumsal'') (\<lambda>b. True) chicken_breast
         (Map.empty, empty_db)
     = (Inr \<lparr>disp_name = Some ''dak-gaseumsal'', disp_barcode = Some ''123'',
             disp_maker = ''Acme, Best Foods'', disp_categories = no_category\<rparr>,
        ([(Some ''Chicken Breast'', Some (Some ''123'')) \<mapsto> (Some ''dak-gaseumsal'', [])],
         empty_db\<lparr>product_translations :=
           [\<lparr>translation_id = 1, barcode = ''123'', translated_name = ''dak-gaseumsal''\<rparr>]\<rparr>),
        [], 1)
   \<and> fst (api_food_row (\<lambda>x. Some ''ssal'') (\<lambda>b. True) loose_rice (Map.empty, empty_db))
     = fst (search_result_row (\<lambda>x. Some ''ssal'') (\<lambda>b. True) loose_rice (Map.empty, empty_db))
   \<and> fst (search_result_row (\<lambda>x. Some ''ssal'') (\<lambda>b. True) loose_rice (Map.empty, empty_db))
     = Inr \<lparr>disp_name = Some ''ssal'', disp_barcode = Some no_barcode,
            disp_maker = no_maker, disp_categories = ''grains''\<rparr>
   \<and> products_filtered (\<lambda>x. Some ''dak-gaseumsal'') (\<lambda>b. True)
       [\<lparr>code = Some (Some ''77''), product_name = Some (Some []), product_name_KR = None,
         brands = None, categories = None\<rparr>] (Map.empty, empty_db)
     = (Inr [], (Map.empty, empty_db), [], 0)"
proof -
  let ?nameless = "\<lparr>code = Some (Some ''77''), product_name = Some (Some []),
                     product_name_KR = None, brands = None, categories = None\<rparr>"
  let ?st = "(Map.empty, empty_db) :: korean_cache \<times> database"
  have h: "search_result_kept chicken_breast \<and> code chicken_breast \<noteq> Some (Some no_barcode)
             \<and> code chicken_breast \<noteq> None"
    by (simp add: search_result_kept_def chicken_breast_def get_or_none_def truthy_def
          no_barcode_def)
  have r: "search_result_kept loose_rice \<and> code loose_rice = None
             \<and> \<not> truthy (get_or_none (product_name_KR loose_rice))
             \<and> fst ?st (get_or_none (product_name loose_rice), None)
                 = fst ?st (get_or_none (product_name loose_rice), Some None)"
    by (simp add: search_result_kept_def loose_rice_def get_or_none_def truthy_def)
  have n: "\<not> search_result_kept ?nameless"
    by (simp add: search_result_kept_def get_or_none_def truthy_def)
  have 1: "api_food_row (\<lambda>x. Some ''dak-gaseumsal'') (\<lambda>b. True) chicken_breast ?st
     = search_result_row (\<lambda>x. Some ''dak-gaseumsal'') (\<lambda>b. True) chicken_breast ?st"
    by (rule projections_agree [of chicken_breast "\<lambda>x. Some ''dak-gaseumsal''" "\<lambda>b. True"
          ?st, THEN conjunct1, THEN mp, OF h, THEN conjunct1])
  have 2: "search_result_row (\<lambda>x. Some ''dak-gaseumsal'') (\<lambda>b. True) chicken_breast ?st
     = (Inr \<lparr>disp_name = Some ''dak-gaseumsal'', disp_barcode = Some ''123'',
             disp_maker = ''Acme, Best Foods'', disp_categories = no_category\<rparr>,
        ([(Some ''Chicken Breast'', Some (Some ''123'')) \<mapsto> (Some ''dak-gaseumsal'', [])],
         empty_db\<lparr>product_translations :=
           [\<lparr>translation_id = 1, barcode = ''123'', translated_name = ''dak-gaseumsal''\<rparr>]\<rparr>),
        [], 1)"
    by (simp add: search_result_row_def search_result_name_def display_row_def comma_field_def
          chicken_breast_def get_or_none_def get_default_def truthy_def
          translate_to_korean_cached_def translate_to_korean_body_def default_None_def
          query_translation_def empty_db_def next_id_def no_category_def)
  have 3: "fst (api_food_row (\<lambda>x. Some ''ssal'') (\<lambda>b. True) loose_rice ?st)
     = fst (search_result_row (\<lambda>x. Some ''ssal'') (\<lambda>b. True) loose_rice ?st)"
    by (rule projections_agree [of loose_rice "\<lambda>x. Some ''ssal''" "\<lambda>b. True" ?st,
          THEN conjunct2, THEN conjunct1, THEN mp, OF r, THEN conjunct1])
  have 4: "fst (search_result_row (\<lambda>x. Some ''ssal'') (\<lambda>b. True) loose_rice ?st)
     = Inr \<lparr>disp_name = Some ''ssal'', disp_barcode = Some no_barcode,
            disp_maker = no_maker, disp_categories = ''grains''\<rparr>"
    by (simp add: search_result_row_def search_result_name_def display_row_def comma_field_def
          loose_rice_def get_or_none_def get_default_def truthy_def
          translate_to_korean_cached_def translate_to_korean_body_def default_None_def
          no_maker_def)
  have 5: "products_filtered (\<lambda>x. Some ''dak-gaseumsal'') (\<lambda>b. True) [?nameless] ?st
     = (Inr [], ?st, [], 0)"
    by (rule projections_agree [of ?nameless "\<lambda>x. Some ''dak-gaseumsal''" "\<lambda>b. True" ?st,
          THEN conjunct2, THEN conjunct2, THEN mp, OF n, THEN conjunct2])
  show ?thesis by (intro conjI 1 2 3 4 5)
qed

text \<open>
  Where the two call sites differ: a record without a code whose only name is the
  pre-localized one is listed under the "no name" marker but shown under its name by the
  search path; and a record with no name is listed, under the marker, but dropped by the
  search path.
\<close>

theorem projections_differ_counterexample:
  "fst (api_food_row (\<lambda>x. None) (\<lambda>b. True)
          \<lparr>code = None, product_name = None, product_name_KR = Some (Some ''gimchi''),
            brands = Some (Some ''Jongga''), categories = Some (Some ''kimchi'')\<rparr>
          (Map.empty, empty_db))
     = Inr \<lparr>disp_name = Some no_name, disp_barcode = Some no_barcode, disp_maker = ''Jongga'',
            disp_categories = ''kimchi''\<rparr>
   \<and> fst (search_result_row (\<lambda>x. None) (\<lambda>b. True)
          \<lparr>code = None, product_name = None, product_name_KR = Some (Some ''gimchi''),
            brands = Some (Some ''Jongga''), categories = Some (Some ''kimchi'')\<rparr>
          (Map.empty, empty_db))
     = Inr \<lparr>disp_name = Some ''gimchi'', disp_barcode = Some no_barcode, disp_maker = ''Jongga'',
            disp_categories = ''kimchi''\<rparr>
   \<and> Some no_name \<noteq> Some ''gimchi''
   \<and> fst (get_api_foods_cached (\<lambda>x. None) (\<lambda>b. True)
          (\<lambda>page page_size.
             Body (Some [\<lparr>code = Some (Some ''77''), product_name = None, product_name_KR = None,
                          brands = Some (Some ''Jongga''),
                          categories = Some (Some ''kimchi'')\<rparr>]))
          1 10 (Map.empty, Map.empty, empty_db))
     = [\<lparr>disp_name = Some no_name, disp_barcode = Some ''77'', disp_maker = ''Jongga'',
         disp_categories = ''kimchi''\<rparr>]
   \<and> fst (products_filtered (\<lambda>x. None) (\<lambda>b. True)
          [\<lparr>code = Some (Some ''77''), product_name = None, product_name_KR = None,
            brands = Some (Some ''Jongga''), categories = Some (Some ''kimchi'')\<rparr>]
          (Map.empty, empty_db))
     = Inr []"
  by (simp add: api_food_row_def api_food_name_def search_result_row_def search_result_name_def
        display_row_def comma_field_def get_or_none_def get_default_def truthy_def
        get_api_foods_cached_def get_api_foods_body_def dict_get_def search_result_kept_def
        no_name_def no_barcode_def Let_def)

section \<open>Accounts: \<open>create_user\<close>\<close>

text \<open>
  \<open>create_user\<close> of \<open>app.py\<close>. \<open>hashpw\<close> is \<open>bcrypt.hashpw\<close> with the salt it draws, and
  \<open>commit_ok\<close> tells whether the commit succeeds. A user row found by name makes the
  function return \<open>False\<close> before anything is written.
\<close>

definition create_user ::
  "(string \<Rightarrow> string) \<Rightarrow> bool \<Rightarrow> string \<Rightarrow> string \<Rightarrow> database \<Rightarrow> bool \<times> database" where
  "create_user hashpw commit_ok uname pw db =
     (case find (\<lambda>u. username u = uname) (users db) of
        Some u \<Rightarrow> (False, db)
      | None \<Rightarrow>
          if commit_ok then
            (True, db\<lparr>users := users db @
               [\<lparr>user_id = next_id (map user_id (users db)), username = uname,
                 password = hashpw pw\<rparr>]\<rparr>)
          else (False, db))"

text \<open>\<open>create_user\<close> of \<open>data/database.py\<close>, on the same table.\<close>

definition database_create_user ::
  "(string \<Rightarrow> string) \<Rightarrow> bool \<Rightarrow> string \<Rightarrow> string \<Rightarrow> database \<Rightarrow> bool \<times> database" where
  "database_create_user hashpw commit_ok uname pw db =
     (let existing_user = find (\<lambda>u. username u = uname) (users db) in
      if existing_user \<noteq> None then (False, db)
      else if commit_ok then
        (True, db\<lparr>users := users db @
           [\<lparr>user_id = next_id (map user_id (users db)), username = uname,
             password = hashpw pw\<rparr>]\<rparr>)
      else (False, db))"

text \<open>
  The functions of \<open>app.py\<close> that write to the database, and \<open>create_user\<close> of
  \<open>data/database.py\<close>, each with its arguments, the outcomes of the services it depends
  on and, for the functions that go through an in-memory cache, the content of that cache
  at the time of the call; and the database after a sequence of calls. (The other writers
  of \<open>data/database.py\<close>, \<open>add_diet\<close> and \<open>delete_meal\<close>, only touch the meals table.)
\<close>

datatype operation =
    Create_user "string \<Rightarrow> string" bool string string
  | Database_create_user "string \<Rightarrow> string" bool string string
  | Add_diet datetime bool nat meal_dict
  | Add_manual_meal datetime bool nat meal_dict
  | Delete_meal bool nat nat
  | Delete_manual_meal bool nat nat
  | Reset_database_tables bool "nat option"
  | Restore_data "string \<Rightarrow> datetime option" bool nat "backup_file json_object option"
  | Translate_to_korean_cached translator "string \<Rightarrow> bool" pystr "pystr option" korean_cache
  | Get_api_foods_cached translator "string \<Rightarrow> bool"
      "int \<Rightarrow> int \<Rightarrow> raw_product list option response" int int foods_cache korean_cache
  | Products_filtered translator "string \<Rightarrow> bool" "raw_product list" korean_cache

fun apply_operation :: "operation \<Rightarrow> database \<Rightarrow> database" where
  "apply_operation (Create_user h ok n pw) db = snd (create_user h ok n pw db)"
| "apply_operation (Database_create_user h ok n pw) db = snd (database_create_user h ok n pw db)"
| "apply_operation (Add_diet now ok uid m) db = snd (add_diet now ok uid m db)"
| "apply_operation (Add_manual_meal now ok uid m) db = snd (add_manual_meal now ok uid m db)"
| "apply_operation (Delete_meal ok uid mid) db = snd (delete_meal ok uid mid db)"
| "apply_operation (Delete_manual_meal ok uid mid) db = snd (delete_manual_meal ok uid mid db)"
| "apply_operation (Reset_database_tables ok uid) db = fst (snd (reset_database_tables ok uid db))"
| "apply_operation (Restore_data l ok uid file) db = fst (snd (restore_data l ok uid file db))"
| "apply_operation (Translate_to_korean_cached tr ok txt arg cache) db
     = snd (fst (snd (translate_to_korean_cached tr ok txt arg (cache, db))))"
| "apply_operation (Get_api_foods_cached tr ok net page page_size fc cache) db
     = snd (snd (fst (snd (get_api_foods_cached tr ok net page page_size (fc, cache, db)))))"
| "apply_operation (Products_filtered tr ok ps cache) db
     = snd (fst (snd (products_filtered tr ok ps (cache, db))))"

section \<open>Usernames stay unique\<close>

lemma create_user_same: "database_create_user h ok n pw db = create_user h ok n pw db"
  by (simp add: database_create_user_def create_user_def Let_def split: option.splits)

lemma create_user_users:
  "users (snd (create_user h ok n pw db)) = users db
   \<or> (\<exists>u. users (snd (create_user h ok n pw db)) = users db @ [u]
          \<and> username u \<notin> username ` set (users db))"
  by (auto simp: create_user_def find_None_iff split: option.splits)

lemma translate_users:
  "users (snd (fst (snd (translate_to_korean_cached tr ok txt arg st)))) = users (snd st)"
  by (cases st)
     (auto simp: translate_to_korean_cached_def translate_to_korean_body_def
           split: option.splits prod.splits if_splits)

lemma api_food_row_users:
  "users (snd (fst (snd (api_food_row tr ok p st)))) = users (snd st)"
proof -
  have "users (snd (fst (snd (api_food_name tr ok p st)))) = users (snd st)"
    by (simp add: api_food_name_def Let_def translate_users)
  then show ?thesis by (auto simp: api_food_row_def split: prod.splits)
qed

lemma api_foods_loop_users:
  "users (snd (fst (snd (api_foods_loop tr ok ps acc st ns k)))) = users (snd st)"
proof (induction ps arbitrary: acc st ns k)
  case Nil
  then show ?case by simp
next
  case (Cons p ps)
  obtain r st1 ns1 k1 where a: "api_food_row tr ok p st = (r, st1, ns1, k1)"
    by (metis prod_cases4)
  have u: "users (snd st1) = users (snd st)"
    using api_food_row_users [of tr ok p st] a by simp
  show ?case
  proof (cases r)
    case (Inl e)
    then show ?thesis using a u by simp
  next
    case (Inr row)
    then show ?thesis using a u Cons.IH [of "acc @ [row]" st1 "ns @ ns1" "k + k1"] by simp
  qed
qed

lemma get_api_foods_users:
  "users (snd (snd (fst (snd (get_api_foods_cached tr ok net page page_size st)))))
     = users (snd (snd st))"
proof (cases "fst st (page, page_size)")
  case None
  obtain v st1 ns k where b: "get_api_foods_body tr ok (net page page_size) (snd st) = (v, st1, ns, k)"
    by (metis prod_cases4)
  have "users (snd (fst (snd (get_api_foods_body tr ok (net page page_size) (snd st)))))
          = users (snd (snd st))"
    by (simp add: get_api_foods_body_def api_foods_loop_users split: response.splits)
  then have "users (snd st1) = users (snd (snd st))" using b by simp
  then show ?thesis by (simp add: get_api_foods_cached_def None b)
next
  case (Some e)
  then show ?thesis by (cases e) (simp add: get_api_foods_cached_def)
qed

lemma search_result_row_users:
  "users (snd (fst (snd (search_result_row tr ok p st)))) = users (snd st)"
proof -
  have "users (snd (fst (snd (search_result_name tr ok p st)))) = users (snd st)"
    by (simp add: search_result_name_def translate_users)
  then show ?thesis by (auto simp: search_result_row_def split: prod.splits)
qed

lemma products_filtered_users:
  "users (snd (fst (snd (products_filtered tr ok ps st)))) = users (snd st)"
proof (induction ps arbitrary: st)
  case Nil
  then show ?case by simp
next
  case (Cons p ps)
  obtain r st1 ns1 k1 where a: "search_result_row tr ok p st = (r, st1, ns1, k1)"
    by (metis prod_cases4)
  obtain rs st2 ns2 k2 where b: "products_filtered tr ok ps st1 = (rs, st2, ns2, k2)"
    by (metis prod_cases4)
  have "users (snd st1) = users (snd st)"
    using search_result_row_users [of tr ok p st] a by simp
  moreover have "users (snd st2) = users (snd st1)"
    using Cons.IH [of st1] b by simp
  ultimately show ?case
    using a b Cons.IH [of st] by (auto split: sum.splits)
qed

lemma apply_operation_users:
  "users (apply_operation op db) = users db
   \<or> (\<exists>u. users (apply_operation op db) = users db @ [u]
          \<and> username u \<notin> username ` set (users db))"
proof (cases op)
  case (Create_user h ok n pw)
  then show ?thesis using create_user_users [of h ok n pw db] by simp
next
  case (Database_create_user h ok n pw)
  then show ?thesis using create_user_users [of h ok n pw db] by (simp add: create_user_same)
next
  case (Add_diet now ok uid m)
  then show ?thesis by (simp add: add_diet_def split: option.splits)
next
  case (Add_manual_meal now ok uid m)
  then show ?thesis by (simp add: add_manual_meal_def split: option.splits)
next
  case (Delete_meal ok uid mid)
  then show ?thesis by (simp add: delete_meal_def split: option.splits)
next
  case (Delete_manual_meal ok uid mid)
  then show ?thesis by (simp add: delete_manual_meal_def split: option.splits)
next
  case (Reset_database_tables ok uid)
  then show ?thesis by (simp add: reset_database_tables_def)
next
  case (Restore_data l ok uid f)
  then show ?thesis
    by (simp add: restore_data_def split: option.splits json_object.splits)
next
  case (Translate_to_korean_cached tr ok t arg cache)
  then show ?thesis by (simp add: translate_users)
next
  case (Get_api_foods_cached tr ok net page page_size fc cache)
  then show ?thesis by (simp add: get_api_foods_users)
next
  case (Products_filtered tr ok ps cache)
  then show ?thesis by (simp add: products_filtered_users)
qed

lemma fold_apply_distinct:
  "distinct (map username (users db))
   \<Longrightarrow> distinct (map username (users (fold apply_operation ops db)))"
proof (induction ops arbitrary: db)
  case Nil
  then show ?case by simp
next
  case (Cons op ops)
  have "distinct (map username (users (apply_operation op db)))"
    using apply_operation_users [of op db] Cons.prems by auto
  then show ?case using Cons.IH by simp
qed

lemma distinct_filter_le_1:
  "distinct (map f xs) \<Longrightarrow> length (filter (\<lambda>x. f x = v) xs) \<le> 1"
  by (induction xs) (auto simp: filter_empty_conv image_iff)

text \<open>
  Claim C10. After any sequence of the operations that write to the database, started
  from a database whose usernames are pairwise different (such as the empty one), at most
  one user row has any given username; and when a row with the username exists,
  \<open>create_user\<close> (of \<open>app.py\<close> and of \<open>data/database.py\<close>) returns \<open>False\<close> and leaves the
  database, and so the users table with every stored password, unchanged.
\<close>

theorem username_unique:
  "(distinct (map username (users db))
    \<longrightarrow> length (filter (\<lambda>u. username u = uname) (users (fold apply_operation ops db))) \<le> 1)
   \<and> length (filter (\<lambda>u. username u = uname) (users (fold apply_operation ops empty_db))) \<le> 1
   \<and> (uname \<in> username ` set (users db)
    \<longrightarrow> create_user hashpw commit_ok uname pw db = (False, db)
      \<and> database_create_user hashpw commit_ok uname pw db = (False, db))"
proof (intro conjI impI)
  assume "distinct (map username (users db))"
  then show "length (filter (\<lambda>u. username u = uname) (users (fold apply_operation ops db))) \<le> 1"
    by (intro distinct_filter_le_1 fold_apply_distinct)
next
  have "distinct (map username (users empty_db))" by (simp add: empty_db_def)
  then show "length (filter (\<lambda>u. username u = uname) (users (fold apply_operation ops empty_db))) \<le> 1"
    by (intro distinct_filter_le_1 fold_apply_distinct)
next
  assume "uname \<in> username ` set (users db)"
  then have "find (\<lambda>u. username u = uname) (users db) \<noteq> None"
    by (auto simp: find_None_iff)
  then show "create_user hashpw commit_ok uname pw db = (False, db)"
    by (auto simp: create_user_def split: option.splits)
  then show "database_create_user hashpw commit_ok uname pw db = (False, db)"
    by (simp add: create_user_same)
qed

theorem username_unique_witness:
  "users (fold apply_operation
      [Create_user (\<lambda>pw. ''h3'') True ''kim'' ''secret'',
       Create_user (\<lambda>pw. ''h4'') True ''park'' ''pw'',
       Database_create_user (\<lambda>pw. ''h5'') True ''park'' ''other''] example_db)
     = users example_db @ [\<lparr>user_id = 3, username = ''park'', password = ''h4''\<rparr>]
   \<and> length (filter (\<lambda>u. username u = ''park'') (users (fold apply_operation
      [Create_user (\<lambda>pw. ''h3'') True ''kim'' ''secret'',
       Create_user (\<lambda>pw. ''h4'') True ''park'' ''pw'',
       Database_create_user (\<lambda>pw. ''h5'') True ''park'' ''other''] example_db))) \<le> 1
   \<and> create_user (\<lambda>pw. ''h3'') True ''kim'' ''secret'' example_db = (False, example_db)"
proof -
  let ?ops = "[Create_user (\<lambda>pw. ''h3'') True ''kim'' ''secret'',
       Create_user (\<lambda>pw. ''h4'') True ''park'' ''pw'',
       Database_create_user (\<lambda>pw. ''h5'') True ''park'' ''other'']"
  have d: "distinct (map username (users example_db))" by (simp add: example_db_def)
  have k: "''kim'' \<in> username ` set (users example_db)" by (simp add: example_db_def)
  have 1: "users (fold apply_operation ?ops example_db)
     = users example_db @ [\<lparr>user_id = 3, username = ''park'', password = ''h4''\<rparr>]"
    by (simp add: create_user_def database_create_user_def example_db_def next_id_def)
  have 2: "length (filter (\<lambda>u. username u = ''park'') (users (fold apply_operation ?ops example_db))) \<le> 1"
    by (rule username_unique [of example_db "''park''" ?ops, THEN conjunct1, THEN mp, OF d])
  have 3: "create_user (\<lambda>pw. ''h3'') True ''kim'' ''secret'' example_db = (False, example_db)"
    by (rule username_unique [of example_db "''kim''", THEN conjunct2, THEN conjunct2, THEN mp,
          OF k, THEN conjunct1])
  show ?thesis by (intro conjI 1 2 3)
qed

end
